theory Spec2Isabelle
  imports Main
begin

section \<open>Paths\<close>

text \<open>
  The program computes every location with \<^verbatim>\<open>pathlib.Path\<close>. A path is modelled as
  the POSIX flavour of pathlib keeps it: a root (\<^verbatim>\<open>''\<close>, \<^verbatim>\<open>'/'\<close> or \<^verbatim>\<open>'//'\<close>) and the list
  of its components. Two paths are equal exactly when root and components are equal,
  which is pathlib's equality on POSIX.
\<close>

datatype path = Path (root: string) (parts: "string list")

text \<open>\<^verbatim>\<open>str.split(sep)\<close> for a one-character separator.\<close>

fun split_on :: "char \<Rightarrow> string \<Rightarrow> string list" where
  "split_on c [] = [[]]"
| "split_on c (x # xs) =
     (if x = c then [] # split_on c xs
      else (case split_on c xs of [] \<Rightarrow> [[x]] | y # ys \<Rightarrow> (x # y) # ys))"

text \<open>
  \<^verbatim>\<open>_PosixFlavour.splitroot\<close>: exactly two leading slashes are kept as the root \<^verbatim>\<open>'//'\<close>,
  any other number of leading slashes is the root \<^verbatim>\<open>'/'\<close>.
\<close>

definition splitroot :: "string \<Rightarrow> string \<times> string" where
  "splitroot part =
     (if part \<noteq> [] \<and> hd part = CHR ''/'' then
        (let stripped_part = dropWhile (\<lambda>c. c = CHR ''/'') part
         in if length part - length stripped_part = 2 then (''//'', stripped_part)
            else (''/'', stripped_part))
      else ('''', part))"

text \<open>\<^verbatim>\<open>Path(s)\<close>: empty components and \<^verbatim>\<open>'.'\<close> components are dropped.\<close>

definition parse_parts :: "string \<Rightarrow> path" where
  "parse_parts s =
     (case splitroot s of
        (r, rel) \<Rightarrow> Path r (filter (\<lambda>x. x \<noteq> [] \<and> x \<noteq> ''.'') (split_on CHR ''/'' rel)))"

text \<open>
  \<^verbatim>\<open>p / s\<close> for a string \<^verbatim>\<open>s\<close>: a right operand with a root replaces the left one, any
  other right operand appends its components.
\<close>

definition truediv :: "path \<Rightarrow> string \<Rightarrow> path" where
  "truediv p s =
     (let q = parse_parts s
      in if root q \<noteq> [] then q else Path (root p) (parts p @ parts q))"

fun sep_join :: "string \<Rightarrow> string list \<Rightarrow> string" where
  "sep_join sep [] = []"
| "sep_join sep [x] = x"
| "sep_join sep (x # y # ys) = x @ sep @ sep_join sep (y # ys)"

text \<open>\<^verbatim>\<open>str(p)\<close>, which is also what an f-string writes for a path.\<close>

definition str :: "path \<Rightarrow> string" where
  "str p = (if root p = [] \<and> parts p = [] then ''.'' else root p @ sep_join ''/'' (parts p))"

text \<open>\<^verbatim>\<open>p.name\<close> and \<^verbatim>\<open>p.parent\<close>.\<close>

definition name :: "path \<Rightarrow> string" where
  "name p = (if parts p = [] then [] else last (parts p))"

definition parent :: "path \<Rightarrow> path" where
  "parent p = Path (root p) (butlast (parts p))"

section \<open>The manifest\<close>

text \<open>
  A TOML value as \<^verbatim>\<open>toml.load\<close> returns it: a string, a table (a \<^verbatim>\<open>dict\<close>), an array (a
  \<^verbatim>\<open>list\<close>), or another scalar (integer, float, boolean, date-time). A value that is not a
  string comes with the text that \<^verbatim>\<open>str()\<close>, and so an f-string, writes for it.
\<close>

datatype toml =
    TStr string
  | TScalar string
  | TArray string "toml list"
  | TTable string "(string \<times> toml) list"

type_synonym toml_doc = "(string \<times> toml) list"

text \<open>\<^verbatim>\<open>f'{v}'\<close> for a TOML value.\<close>

fun py_str :: "toml \<Rightarrow> string" where
  "py_str (TStr s) = s"
| "py_str (TScalar r) = r"
| "py_str (TArray r xs) = r"
| "py_str (TTable r kv) = r"

text \<open>
  The content of a regular file, as far as \<^verbatim>\<open>toml.load\<close> tells: bytes that are not UTF-8,
  text that is not TOML, or a document.
\<close>

datatype content = NotUtf8 | NotToml | Toml toml_doc

datatype node = File content | Dir

section \<open>Exceptions\<close>

text \<open>
  \<^verbatim>\<open>RuntimeError\<close> is the class the program raises itself, with its message;
  \<^verbatim>\<open>RecursionError\<close> is its subclass that the interpreter raises. \<^verbatim>\<open>OSError_ENAMETOOLONG\<close> is the
  plain \<^verbatim>\<open>OSError\<close> with errno 36; the four file errors are subclasses of \<^verbatim>\<open>OSError\<close>.
\<close>

datatype error =
    RuntimeError string
  | RecursionError
  | KeyError string
  | AttributeError string
  | TypeError
  | ValueError
  | UnicodeDecodeError
  | TomlDecodeError
  | FileNotFoundError
  | FileExistsError
  | NotADirectoryError
  | IsADirectoryError
  | OSError_ENAMETOOLONG

text \<open>\<^verbatim>\<open>isinstance(e, RuntimeError)\<close> and \<^verbatim>\<open>isinstance(e, OSError)\<close>.\<close>

fun is_RuntimeError :: "error \<Rightarrow> bool" where
  "is_RuntimeError (RuntimeError m) = True"
| "is_RuntimeError RecursionError = True"
| "is_RuntimeError e = False"

definition is_OSError :: "error \<Rightarrow> bool" where
  "is_OSError e \<longleftrightarrow>
     e \<in> {FileNotFoundError, FileExistsError, NotADirectoryError, IsADirectoryError,
          OSError_ENAMETOOLONG}"

section \<open>The process: file system, working directory, stack\<close>

text \<open>
  The part of the process the program touches. The file system is a finite table from
  locations (the names from the root down) to nodes; the root directory always exists.
  \<open>cwd\<close> is what \<^verbatim>\<open>Path.cwd()\<close> returns, an absolute path without \<^verbatim>\<open>..\<close>. \<open>stack_room\<close> is the
  number of nested calls of \<^verbatim>\<open>Path.mkdir\<close> that the interpreter's recursion limit (1000
  frames unless changed) still allows where \<^verbatim>\<open>ensure_dir\<close> calls it. There are no
  symbolic links, every directory may be searched and written, and no device fails.
\<close>

record world =
  cwd :: path
  files :: "(string list \<times> node) list"
  stack_room :: nat

definition NAME_MAX :: nat where
  "NAME_MAX = 255"

definition PATH_MAX :: nat where
  "PATH_MAX = 4096"

definition node_at :: "world \<Rightarrow> string list \<Rightarrow> node option" where
  "node_at w k = (if k = [] then Some Dir else map_of (files w) k)"

text \<open>
  The kernel's walk along the components of a path from the directory \<open>cur\<close>: every
  component is looked up in a directory that exists, \<^verbatim>\<open>..\<close> steps to the parent (the root is
  its own parent), and a name longer than \<open>NAME_MAX\<close> cannot be looked up.
\<close>

fun walk :: "world \<Rightarrow> string list \<Rightarrow> string list \<Rightarrow> error + string list" where
  "walk w cur [] = Inr cur"
| "walk w cur (n # ns) =
     (case node_at w cur of
        None \<Rightarrow> Inl FileNotFoundError
      | Some (File c) \<Rightarrow> Inl NotADirectoryError
      | Some Dir \<Rightarrow>
          if n = ''..'' then walk w (butlast cur) ns
          else if NAME_MAX < length n then Inl OSError_ENAMETOOLONG
          else walk w (cur @ [n]) ns)"

text \<open>Where a walk starts: relative paths start at the working directory.\<close>

definition start :: "world \<Rightarrow> path \<Rightarrow> string list" where
  "start w p = (if root p = [] then parts (cwd w) else [])"

text \<open>
  What every system call checks of a path before the walk: Python refuses an embedded
  null byte with \<^verbatim>\<open>ValueError\<close>, the kernel a path of \<open>PATH_MAX\<close> bytes or more.
\<close>

definition has_nul :: "path \<Rightarrow> bool" where
  "has_nul p = list_ex (\<lambda>s. CHR 0x00 \<in> set s) (root p # parts p)"

definition path_check :: "path \<Rightarrow> error option" where
  "path_check p =
     (if has_nul p then Some ValueError
      else if PATH_MAX \<le> length (str p) then Some OSError_ENAMETOOLONG
      else None)"

text \<open>\<^verbatim>\<open>os.stat(p)\<close>.\<close>

definition os_stat :: "world \<Rightarrow> path \<Rightarrow> error + node" where
  "os_stat w p =
     (case path_check p of
        Some e \<Rightarrow> Inl e
      | None \<Rightarrow>
          (case walk w (start w p) (parts p) of
             Inl e \<Rightarrow> Inl e
           | Inr k \<Rightarrow> (case node_at w k of None \<Rightarrow> Inl FileNotFoundError | Some nd \<Rightarrow> Inr nd)))"

text \<open>
  \<^verbatim>\<open>Path.is_file()\<close>, \<^verbatim>\<open>Path.is_dir()\<close> and \<^verbatim>\<open>Path.exists()\<close>: a missing file, a regular file
  in the way (pathlib's \<^verbatim>\<open>_ignore_error\<close>) and a \<^verbatim>\<open>ValueError\<close> give \<^verbatim>\<open>False\<close>; any other
  \<^verbatim>\<open>OSError\<close> is raised again.
\<close>

definition ignore_error :: "error \<Rightarrow> bool" where
  "ignore_error e \<longleftrightarrow> e = FileNotFoundError \<or> e = NotADirectoryError"

definition is_file :: "world \<Rightarrow> path \<Rightarrow> error + bool" where
  "is_file w p =
     (case os_stat w p of
        Inr (File c) \<Rightarrow> Inr True
      | Inr Dir \<Rightarrow> Inr False
      | Inl e \<Rightarrow> if ignore_error e \<or> e = ValueError then Inr False else Inl e)"

definition is_dir :: "world \<Rightarrow> path \<Rightarrow> error + bool" where
  "is_dir w p =
     (case os_stat w p of
        Inr Dir \<Rightarrow> Inr True
      | Inr (File c) \<Rightarrow> Inr False
      | Inl e \<Rightarrow> if ignore_error e \<or> e = ValueError then Inr False else Inl e)"

definition exists :: "world \<Rightarrow> path \<Rightarrow> error + bool" where
  "exists w p =
     (case os_stat w p of
        Inr nd \<Rightarrow> Inr True
      | Inl e \<Rightarrow> if ignore_error e \<or> e = ValueError then Inr False else Inl e)"

text \<open>\<^verbatim>\<open>Path.cwd()\<close>.\<close>

definition Path_cwd :: "world \<Rightarrow> path" where
  "Path_cwd w = cwd w"

text \<open>
  \<^verbatim>\<open>os.mkdir(p)\<close>: the walk goes to the directory that is to hold the new one; the call
  fails when that is missing or a regular file, when the last component is \<^verbatim>\<open>..\<close> or
  nothing (the path names a directory that exists), when its name is too long, and when
  the name is taken; otherwise one empty directory is added.
\<close>

definition os_mkdir :: "world \<Rightarrow> path \<Rightarrow> error option \<times> world" where
  "os_mkdir w p =
     (case path_check p of
        Some e \<Rightarrow> (Some e, w)
      | None \<Rightarrow>
          (case walk w (start w p) (butlast (parts p)) of
             Inl e \<Rightarrow> (Some e, w)
           | Inr k \<Rightarrow>
               (case node_at w k of
                  None \<Rightarrow> (Some FileNotFoundError, w)
                | Some (File c) \<Rightarrow> (Some NotADirectoryError, w)
                | Some Dir \<Rightarrow>
                    if parts p = [] \<or> last (parts p) = ''..'' then (Some FileExistsError, w)
                    else if NAME_MAX < length (last (parts p)) then (Some OSError_ENAMETOOLONG, w)
                    else (case node_at w (k @ [last (parts p)]) of
                            Some nd \<Rightarrow> (Some FileExistsError, w)
                          | None \<Rightarrow> (None, w\<lparr>files := (k @ [last (parts p)], Dir) # files w\<rparr>)))))"

text \<open>
  \<^verbatim>\<open>Path.mkdir(parents, exist_ok)\<close>, as pathlib implements it:
  \<^verbatim>\<open>
    try:
        os.mkdir(self, mode)
    except FileNotFoundError:
        if not parents or self.parent == self:
            raise
        self.parent.mkdir(parents=True, exist_ok=True)
        self.mkdir(mode, parents=False, exist_ok=exist_ok)
    except OSError:
        if not exist_ok or not self.is_dir():
            raise
  \<close>
  The first argument is the number of nested calls the stack still allows: a nested call
  beyond it raises \<^verbatim>\<open>RecursionError\<close>. An exception of \<^verbatim>\<open>self.is_dir()\<close> in the handler
  replaces the one handled; a \<^verbatim>\<open>ValueError\<close> of \<^verbatim>\<open>os.mkdir\<close> is not caught.
\<close>

fun mkdir :: "nat \<Rightarrow> world \<Rightarrow> path \<Rightarrow> bool \<Rightarrow> bool \<Rightarrow> error option \<times> world" where
  "mkdir room w self parents exist_ok =
     (case os_mkdir w self of
        (None, w1) \<Rightarrow> (None, w1)
      | (Some e, w1) \<Rightarrow>
          if e = FileNotFoundError then
            (if \<not> parents \<or> parent self = self then (Some e, w1)
             else (case room of
                     0 \<Rightarrow> (Some RecursionError, w1)
                   | Suc room1 \<Rightarrow>
                       (case mkdir room1 w1 (parent self) True True of
                          (Some e2, w2) \<Rightarrow> (Some e2, w2)
                        | (None, w2) \<Rightarrow> mkdir room1 w2 self False exist_ok)))
          else if is_OSError e then
            (if \<not> exist_ok then (Some e, w1)
             else (case is_dir w1 self of
                     Inl e2 \<Rightarrow> (Some e2, w1)
                   | Inr False \<Rightarrow> (Some e, w1)
                   | Inr True \<Rightarrow> (None, w1)))
          else (Some e, w1))"

declare mkdir.simps [simp del]

text \<open>
  \<^verbatim>\<open>fnmatch\<close> of a name against a pattern of literal characters and \<^verbatim>\<open>*\<close> (the program's
  only pattern is \<^verbatim>\<open>'*.py'\<close>); POSIX matching is case-sensitive.
\<close>

fun fnmatch :: "string \<Rightarrow> string \<Rightarrow> bool" where
  "fnmatch [] [] = True"
| "fnmatch (c # cs) [] = False"
| "fnmatch [] (p # ps) = (p = CHR ''*'' \<and> fnmatch [] ps)"
| "fnmatch (c # cs) (p # ps) =
     (if p = CHR ''*'' then fnmatch (c # cs) ps \<or> fnmatch cs (p # ps)
      else c = p \<and> fnmatch cs ps)"

text \<open>\<^verbatim>\<open>os.scandir(p)\<close>: the names of the entries of the directory \<^verbatim>\<open>p\<close>.\<close>

definition scandir :: "world \<Rightarrow> path \<Rightarrow> string list" where
  "scandir w p =
     (case walk w (start w p) (parts p) of
        Inl e \<Rightarrow> []
      | Inr k \<Rightarrow> map last (filter (\<lambda>k1. k1 \<noteq> [] \<and> butlast k1 = k) (map fst (files w))))"

text \<open>
  \<^verbatim>\<open>list(p.glob(pat))\<close> for a pattern of one component: nothing when \<^verbatim>\<open>p.is_dir()\<close> is
  false, else the entries of \<^verbatim>\<open>p\<close> whose name matches, each as \<^verbatim>\<open>p\<close> extended by that name.
\<close>

definition glob :: "world \<Rightarrow> path \<Rightarrow> string \<Rightarrow> error + path list" where
  "glob w p pat =
     (case is_dir w p of
        Inl e \<Rightarrow> Inl e
      | Inr False \<Rightarrow> Inr []
      | Inr True \<Rightarrow>
          Inr (map (\<lambda>nm. Path (root p) (parts p @ [nm]))
                 (filter (\<lambda>nm. fnmatch nm pat) (scandir w p))))"

text \<open>\<^verbatim>\<open>toml.load(p)\<close>: the file is opened, decoded as UTF-8 and parsed.\<close>

definition toml_load :: "world \<Rightarrow> path \<Rightarrow> error + toml_doc" where
  "toml_load w p =
     (case os_stat w p of
        Inl e \<Rightarrow> Inl e
      | Inr Dir \<Rightarrow> Inl IsADirectoryError
      | Inr (File NotUtf8) \<Rightarrow> Inl UnicodeDecodeError
      | Inr (File NotToml) \<Rightarrow> Inl TomlDecodeError
      | Inr (File (Toml doc)) \<Rightarrow> Inr doc)"

text \<open>\<^verbatim>\<open>d[k]\<close> on a dictionary, and \<^verbatim>\<open>v[k]\<close> on a TOML value for a string \<^verbatim>\<open>k\<close>.\<close>

definition getitem :: "(string \<times> 'v) list \<Rightarrow> string \<Rightarrow> error + 'v" where
  "getitem d k = (case map_of d k of None \<Rightarrow> Inl (KeyError k) | Some v \<Rightarrow> Inr v)"

fun subscript :: "toml \<Rightarrow> string \<Rightarrow> error + toml" where
  "subscript (TTable r kv) k = getitem kv k"
| "subscript v k = Inl TypeError"

text \<open>\<^verbatim>\<open>sub in s\<close> on strings.\<close>

fun contains :: "string \<Rightarrow> string \<Rightarrow> bool" where
  "contains [] sub = (sub = [])"
| "contains (c # cs) sub = (take (length sub) (c # cs) = sub \<or> contains cs sub)"

text \<open>
  \<^verbatim>\<open>sub in v\<close> for a string \<^verbatim>\<open>sub\<close> and a TOML value: a substring of a string, an element
  of an array, a key of a table; another scalar is not iterable.
\<close>

fun py_in :: "string \<Rightarrow> toml \<Rightarrow> error + bool" where
  "py_in sub (TStr s) = Inr (contains s sub)"
| "py_in sub (TArray r xs) = Inr (TStr sub \<in> set xs)"
| "py_in sub (TTable r kv) = Inr (sub \<in> set (map fst kv))"
| "py_in sub (TScalar r) = Inl TypeError"

text \<open>\<^verbatim>\<open>p / v\<close> for a TOML value: only a string can be joined.\<close>

fun truediv_value :: "path \<Rightarrow> toml \<Rightarrow> error + path" where
  "truediv_value p (TStr s) = Inr (truediv p s)"
| "truediv_value p v = Inl TypeError"

text \<open>
  A set comprehension \<^verbatim>\<open>{x for x in xs if f(x)}\<close> whose condition can raise: the elements
  are tested in order and the first exception ends the evaluation.
\<close>

fun filter_raising :: "('a \<Rightarrow> error + bool) \<Rightarrow> 'a list \<Rightarrow> error + 'a list" where
  "filter_raising f [] = Inr []"
| "filter_raising f (x # xs) =
     (case f x of
        Inl e \<Rightarrow> Inl e
      | Inr b \<Rightarrow>
          (case filter_raising f xs of
             Inl e \<Rightarrow> Inl e
           | Inr ys \<Rightarrow> Inr (if b then x # ys else ys)))"

section \<open>\<^verbatim>\<open>dash_dev/doit_base.py\<close>\<close>

text \<open>
  Python collections: \<^verbatim>\<open>lint_paths\<close> starts as the list \<^verbatim>\<open>[]\<close> and is a \<^verbatim>\<open>set\<close> after
  \<^verbatim>\<open>set_paths\<close>; \<^verbatim>\<open>external_doc_dirs\<close> is a list by default, and its docstring shows a tuple.
\<close>

datatype 'a coll = PyList "'a list" | PyTuple "'a list" | PySet "'a set"

text \<open>
  The data attributes of a \<^verbatim>\<open>DoItGlobals\<close> object, in the order of the class body. Each is
  a class attribute that an instance, or a caller, can assign.
\<close>

record DoItGlobals =
  dash_dev_dir :: path
  flake8_path :: "path option"
  path_gitchangelog :: path
  lint_paths :: "path coll"
  excluded_files :: "string list"
  external_doc_dirs :: "string coll"
  source_path :: "path option"
  test_path :: "path option"
  toml_path :: "path option"
  pkg_name :: "toml option"
  doc_dir :: "path option"
  coverage_path :: "path option"
  test_report_path :: "path option"
  src_examples_dir :: "path option"
  tmp_examples_dir :: "path option"
  template_dir :: "path option"
  pkg_version :: "toml option"

text \<open>
  \<^verbatim>\<open>DoItGlobals()\<close>: the class defaults. The argument is \<^verbatim>\<open>Path(__file__).parent\<close>, the
  directory the module is installed in.
\<close>

definition DoItGlobals_init :: "path \<Rightarrow> DoItGlobals" where
  "DoItGlobals_init module_dir =
     \<lparr>dash_dev_dir = module_dir,
      flake8_path = None,
      path_gitchangelog = truediv module_dir ''.gitchangelog.rc'',
      lint_paths = PyList [],
      excluded_files = [''__init__.py''],
      external_doc_dirs = PyList [''examples'', ''scripts'', ''tests''],
      source_path = None,
      test_path = None,
      toml_path = None,
      pkg_name = None,
      doc_dir = None,
      coverage_path = None,
      test_report_path = None,
      src_examples_dir = None,
      tmp_examples_dir = None,
      template_dir = None,
      pkg_version = None\<rparr>"

text \<open>
  Modelled from the spec: \<^verbatim>\<open>logger_context\<close> (module \<^verbatim>\<open>log_helpers\<close>, which is not among the
  sources) is logging glue. It writes a log line before and after the block it wraps, and
  the block's result, its effects and its exceptions pass through unchanged.
\<close>

definition logger_context :: "string \<Rightarrow> 'a \<Rightarrow> 'a" where
  "logger_context message block = block"

text \<open>\<^verbatim>\<open>ensure_dir(dir_path)\<close>.\<close>

definition ensure_dir :: "world \<Rightarrow> path \<Rightarrow> error option \<times> world" where
  "ensure_dir w dir_path =
     logger_context (''Create `'' @ str dir_path @ ''`'')
       (mkdir (stack_room w) w dir_path True True)"

text \<open>
  \<^verbatim>\<open>DoItGlobals.set_paths(self, *, pkg_name, source_path, doc_dir)\<close>. The result is the
  exception raised, if any, with the instance and the file system as the call leaves
  them. Logging is left out; the argument \<^verbatim>\<open>pkg_name\<close> is only logged. An attribute that
  the source reads back from \<^verbatim>\<open>self\<close> right after assigning it is kept in a local name
  (\<open>sp\<close>, \<open>tst\<close>, \<open>dd\<close>, \<open>td\<close>, \<open>tp\<close>, \<open>nm\<close>, \<open>sed\<close>, \<open>paths\<close>). The list comprehension of line 127
  joins \<^verbatim>\<open>pkg_name\<close> first, so only that join can raise.
\<close>

definition set_paths ::
  "DoItGlobals \<Rightarrow> world \<Rightarrow> string option \<Rightarrow> path option \<Rightarrow> path option
     \<Rightarrow> error option \<times> DoItGlobals \<times> world" where
  "set_paths self w arg_pkg_name arg_source_path arg_doc_dir =
     (let sp = (case arg_source_path of None \<Rightarrow> Path_cwd w | Some p \<Rightarrow> p);
          self = self\<lparr>source_path := Some sp\<rparr>;
          tst = truediv sp ''tests'';
          self = self\<lparr>test_path := Some tst\<rparr>;
          dd = (case arg_doc_dir of None \<Rightarrow> truediv sp ''docs'' | Some d \<Rightarrow> d);
          self = self\<lparr>doc_dir := Some dd\<rparr>;
          td = truediv dd ''templates'';
          self = self\<lparr>template_dir := Some td\<rparr>
      in case ensure_dir w td of
           (Some e, w) \<Rightarrow> (Some e, self, w)
         | (None, w) \<Rightarrow>
      (let self = self\<lparr>coverage_path := Some (truediv dd ''cov_html/index.html'')\<rparr>;
           self = self\<lparr>test_report_path := Some (truediv dd ''test_report.html'')\<rparr>;
           self = self\<lparr>flake8_path := Some (truediv sp ''.flake8'')\<rparr>;
           tp = truediv sp ''pyproject.toml'';
           self = self\<lparr>toml_path := Some tp\<rparr>
       in case is_file w tp of
            Inl e \<Rightarrow> (Some e, self, w)
          | Inr False \<Rightarrow>
              (Some (RuntimeError (''Could not find '' @ name tp @ ''. Check that the ''
                                     @ str sp @ '' is correct'')), self, w)
          | Inr True \<Rightarrow>
      (case toml_load w tp of Inl e \<Rightarrow> (Some e, self, w) | Inr doc \<Rightarrow>
      (case getitem doc ''tool'' of Inl e \<Rightarrow> (Some e, self, w) | Inr tool \<Rightarrow>
      (case subscript tool ''poetry'' of Inl e \<Rightarrow> (Some e, self, w) | Inr poetry_config \<Rightarrow>
      (case subscript poetry_config ''version'' of Inl e \<Rightarrow> (Some e, self, w) | Inr v \<Rightarrow>
      (let self = self\<lparr>pkg_version := Some v\<rparr>
       in case subscript poetry_config ''name'' of Inl e \<Rightarrow> (Some e, self, w) | Inr nm \<Rightarrow>
      (let self = self\<lparr>pkg_name := Some nm\<rparr>
       in case py_in ''-'' nm of
            Inl e \<Rightarrow> (Some e, self, w)
          | Inr True \<Rightarrow>
              (Some (RuntimeError (''Replace dashes in name with underscores ('' @ py_str nm
                                     @ '') in '' @ str tp)), self, w)
          | Inr False \<Rightarrow>
      (let sed = truediv sp ''tests/examples'';
           self = self\<lparr>src_examples_dir := Some sed\<rparr>;
           self = self\<lparr>tmp_examples_dir := Some (truediv sp (py_str nm @ ''/0EX''))\<rparr>
       in case is_dir w sed of Inl e \<Rightarrow> (Some e, self, w) | Inr b \<Rightarrow>
      (let self = (if \<not> b then self\<lparr>src_examples_dir := None\<rparr> else self)
       in case external_doc_dirs self of
            PyTuple ds \<Rightarrow> (Some TypeError, self, w)
          | PySet ds \<Rightarrow> (Some TypeError, self, w)
          | PyList ds \<Rightarrow>
      (case truediv_value sp nm of Inl e \<Rightarrow> (Some e, self, w) | Inr pn \<Rightarrow>
      (let paths = pn # map (\<lambda>subdir. truediv sp subdir) ds;
           self = self\<lparr>lint_paths := PyList paths\<rparr>
       in case glob w sp ''*.py'' of Inl e \<Rightarrow> (Some e, self, w) | Inr g \<Rightarrow>
      (let paths = paths @ ([tst] @ g);
           self = self\<lparr>lint_paths := PyList paths\<rparr>
       in case filter_raising (\<lambda>lint_path. exists w lint_path) paths of
            Inl e \<Rightarrow> (Some e, self, w)
          | Inr kept \<Rightarrow> (None, self\<lparr>lint_paths := PySet (set kept)\<rparr>, w))))))))))))))"

section \<open>The attributes of the instance\<close>

text \<open>
  The data attributes of a \<^verbatim>\<open>DoItGlobals\<close> object by name, in the order of the class body:
  what \<^verbatim>\<open>getattr\<close> finds for each public name other than the method \<^verbatim>\<open>set_paths\<close>.
\<close>

datatype attr_value =
    VPath path
  | VOptPath "path option"
  | VOptToml "toml option"
  | VPaths "path coll"
  | VNames "string list"
  | VDirs "string coll"

definition data_attrs :: "DoItGlobals \<Rightarrow> (string \<times> attr_value) list" where
  "data_attrs self =
     [(''dash_dev_dir'', VPath (dash_dev_dir self)),
      (''flake8_path'', VOptPath (flake8_path self)),
      (''path_gitchangelog'', VPath (path_gitchangelog self)),
      (''lint_paths'', VPaths (lint_paths self)),
      (''excluded_files'', VNames (excluded_files self)),
      (''external_doc_dirs'', VDirs (external_doc_dirs self)),
      (''source_path'', VOptPath (source_path self)),
      (''test_path'', VOptPath (test_path self)),
      (''toml_path'', VOptPath (toml_path self)),
      (''pkg_name'', VOptToml (pkg_name self)),
      (''doc_dir'', VOptPath (doc_dir self)),
      (''coverage_path'', VOptPath (coverage_path self)),
      (''test_report_path'', VOptPath (test_report_path self)),
      (''src_examples_dir'', VOptPath (src_examples_dir self)),
      (''tmp_examples_dir'', VOptPath (tmp_examples_dir self)),
      (''template_dir'', VOptPath (template_dir self)),
      (''pkg_version'', VOptToml (pkg_version self))]"

text \<open>The attributes that the body of \<^verbatim>\<open>set_paths\<close> assigns (\<^verbatim>\<open>self.x = ...\<close>).\<close>

definition set_paths_assigns :: "string list" where
  "set_paths_assigns =
     [''source_path'', ''test_path'', ''doc_dir'', ''template_dir'', ''coverage_path'',
      ''test_report_path'', ''flake8_path'', ''toml_path'', ''pkg_version'', ''pkg_name'',
      ''src_examples_dir'', ''tmp_examples_dir'', ''lint_paths'']"

text \<open>The attributes whose name mentions a tag.\<close>

definition tag_attrs :: "DoItGlobals \<Rightarrow> (string \<times> attr_value) list" where
  "tag_attrs self = filter (\<lambda>a. contains (fst a) ''tag'') (data_attrs self)"

section \<open>Tasks\<close>

text \<open>
  The module-level names of \<^verbatim>\<open>doit_base.py\<close> that hold state: the one instance \<^verbatim>\<open>DIG\<close>
  (line 135, \<^verbatim>\<open>DIG = DoItGlobals()\<close>). A method call \<^verbatim>\<open>DIG.set_paths(...)\<close> updates it in place.
\<close>

record module_state =
  DIG :: DoItGlobals

definition module_init :: "path \<Rightarrow> module_state" where
  "module_init module_dir = \<lparr>DIG = DoItGlobals_init module_dir\<rparr>"

definition DIG_set_paths ::
  "module_state \<Rightarrow> world \<Rightarrow> string option \<Rightarrow> path option \<Rightarrow> path option
     \<Rightarrow> error option \<times> module_state \<times> world" where
  "DIG_set_paths m w arg_pkg_name arg_source_path arg_doc_dir =
     (case set_paths (DIG m) w arg_pkg_name arg_source_path arg_doc_dir of
        (r, self, w1) \<Rightarrow> (r, m\<lparr>DIG := self\<rparr>, w1))"

text \<open>
  A DoIt task as \<^verbatim>\<open>debug_task\<close> builds it: the actions, the title function (always
  \<^verbatim>\<open>_show_cmd\<close>) and the verbosity.
\<close>

datatype title = Show_cmd

record DoItTask =
  actions :: "string list"
  title :: title
  verbosity :: int

definition debug_task :: "string list \<Rightarrow> int \<Rightarrow> DoItTask" where
  "debug_task acts verb = \<lparr>actions = acts, title = Show_cmd, verbosity = verb\<rparr>"

text \<open>
  \<^verbatim>\<open>task_export_req\<close> of \<^verbatim>\<open>doit_base.py\<close>. The task takes no argument: it reads the
  module-level \<^verbatim>\<open>DIG\<close>. An attribute of \<^verbatim>\<open>None\<close> raises \<^verbatim>\<open>AttributeError\<close>.
\<close>

definition task_export_req :: "module_state \<Rightarrow> error + DoItTask" where
  \<open>task_export_req m =
     (case toml_path (DIG m) of
        None \<Rightarrow> Inl (AttributeError ''parent'')
      | Some tp \<Rightarrow>
          (let req_path = truediv (parent tp) ''requirements.txt''
           in Inr (debug_task
                [''poetry export -f '' @ name req_path @ '' -o "'' @ str req_path
                   @ ''" --without-hashes --dev''] 2)))\<close>

text \<open>
  Modelled from the spec: \<^verbatim>\<open>dodo.py\<close> imports \<^verbatim>\<open>DIG\<close>, \<^verbatim>\<open>DoItTask\<close> and \<^verbatim>\<open>debug_task\<close> from
  \<^verbatim>\<open>dash_dev.doit_helpers.doit_globals\<close> and \<^verbatim>\<open>dash_dev.doit_helpers.base\<close>, modules that are not
  among the sources. The spec names \<^verbatim>\<open>DIG\<close> as the process-wide singleton holding the
  resolved project paths, so the names are taken to be the \<^verbatim>\<open>DIG\<close> and the \<^verbatim>\<open>debug_task\<close> of
  \<^verbatim>\<open>doit_base.py\<close>.

  \<^verbatim>\<open>dodo.py\<close> configures the instance with \<^verbatim>\<open>DIG.set_paths(source_path=...)\<close>, the directory
  of the file itself, and defines \<^verbatim>\<open>task_type_checking\<close>. An f-string writes \<^verbatim>\<open>None\<close> as
  \<^verbatim>\<open>'None'\<close>.
\<close>

definition dodo_configure ::
  "module_state \<Rightarrow> world \<Rightarrow> path \<Rightarrow> error option \<times> module_state \<times> world" where
  "dodo_configure m w dodo_dir = DIG_set_paths m w None (Some dodo_dir) None"

definition task_type_checking :: "module_state \<Rightarrow> DoItTask" where
  "task_type_checking m =
     debug_task
       [''poetry run mypy '' @ (case pkg_name (DIG m) of None \<Rightarrow> ''None'' | Some v \<Rightarrow> py_str v)]
       2"

section \<open>Vocabulary of the proofs\<close>

text \<open>
  \<open>extends w w'\<close>: the file system of \<open>w'\<close> is that of \<open>w\<close> with directories added at
  locations that were free, for the same process. This is all \<^verbatim>\<open>mkdir\<close> does.
\<close>

definition extends :: "world \<Rightarrow> world \<Rightarrow> bool" where
  "extends w w' \<longleftrightarrow>
     cwd w' = cwd w \<and> stack_room w' = stack_room w \<and>
     (\<forall>k. node_at w' k = node_at w k \<or> (node_at w k = None \<and> node_at w' k = Some Dir))"

text \<open>
  The instance as \<^verbatim>\<open>set_paths\<close> leaves it after each of its blocks: up to \<^verbatim>\<open>ensure_dir\<close>
  (line 106), up to the manifest check (line 112), after the manifest is read (line 116),
  and after the examples directories are assigned (line 123).
\<close>

abbreviation dirs_set :: "DoItGlobals \<Rightarrow> path \<Rightarrow> path \<Rightarrow> DoItGlobals" where
  "dirs_set s p d \<equiv>
     s\<lparr>source_path := Some p, test_path := Some (truediv p ''tests''),
       doc_dir := Some d, template_dir := Some (truediv d ''templates'')\<rparr>"

abbreviation paths_set :: "DoItGlobals \<Rightarrow> path \<Rightarrow> path \<Rightarrow> DoItGlobals" where
  "paths_set s p d \<equiv>
     (dirs_set s p d)\<lparr>coverage_path := Some (truediv d ''cov_html/index.html''),
       test_report_path := Some (truediv d ''test_report.html''),
       flake8_path := Some (truediv p ''.flake8''),
       toml_path := Some (truediv p ''pyproject.toml'')\<rparr>"

abbreviation named_set :: "DoItGlobals \<Rightarrow> path \<Rightarrow> path \<Rightarrow> toml \<Rightarrow> toml \<Rightarrow> DoItGlobals" where
  "named_set s p d v nm \<equiv> (paths_set s p d)\<lparr>pkg_version := Some v, pkg_name := Some nm\<rparr>"

abbreviation examples_set ::
  "DoItGlobals \<Rightarrow> path \<Rightarrow> path \<Rightarrow> toml \<Rightarrow> toml \<Rightarrow> bool \<Rightarrow> DoItGlobals" where
  "examples_set s p d v nm b \<equiv>
     (named_set s p d v nm)\<lparr>
       src_examples_dir := (if b then Some (truediv p ''tests/examples'') else None),
       tmp_examples_dir := Some (truediv p (py_str nm @ ''/0EX''))\<rparr>"

text \<open>The two messages of the program's own \<^verbatim>\<open>RuntimeError\<close>s (lines 113 and 118).\<close>

abbreviation missing_message :: "path \<Rightarrow> string" where
  "missing_message p \<equiv> ''Could not find pyproject.toml. Check that the '' @ str p @ '' is correct''"

abbreviation dash_message :: "string \<Rightarrow> path \<Rightarrow> string" where
  "dash_message n p \<equiv>
     ''Replace dashes in name with underscores ('' @ n @ '') in ''
       @ str (truediv p ''pyproject.toml'')"

section \<open>Example projects\<close>

text \<open>
  Concrete projects for the instances below. \<open>demo_world n\<close> is a project \<^verbatim>\<open>/w\<close>, also the
  working directory, whose manifest names the package \<open>n\<close>; \<open>DIG0\<close> is a fresh
  \<^verbatim>\<open>DoItGlobals()\<close> of a module installed in \<^verbatim>\<open>/lib/dash_dev\<close>, and \<open>module0\<close> the module
  \<^verbatim>\<open>doit_base\<close> right after import. The process has room for 900 nested calls.
\<close>

definition quoted :: "string \<Rightarrow> string" where
  "quoted n = [CHR 0x27] @ n @ [CHR 0x27]"

definition demo_manifest :: "string \<Rightarrow> toml_doc" where
  "demo_manifest n =
     [(''tool'',
       TTable (''{'poetry': {'name': '' @ quoted n @ '', 'version': '1.0'}}'')
         [(''poetry'',
           TTable (''{'name': '' @ quoted n @ '', 'version': '1.0'}'')
             [(''name'', TStr n), (''version'', TStr ''1.0'')])])]"

definition demo_world :: "string \<Rightarrow> world" where
  "demo_world n =
     \<lparr>cwd = Path ''/'' [''w''],
      files = [([''w''], Dir),
               ([''w'', ''pyproject.toml''], File (Toml (demo_manifest n))),
               ([''w'', ''tests''], Dir),
               ([''w'', ''tests'', ''examples''], Dir),
               ([''w'', ''pk''], Dir),
               ([''w'', ''dodo.py''], File NotToml),
               ([''w'', ''README.md''], File NotToml)],
      stack_room = 900\<rparr>"

definition DIG0 :: DoItGlobals where
  "DIG0 = DoItGlobals_init (Path ''/'' [''lib'', ''dash_dev''])"

definition module0 :: module_state where
  "module0 = module_init (Path ''/'' [''lib'', ''dash_dev''])"

text \<open>A project whose \<^verbatim>\<open>docs\<close> is a regular file and that has no manifest.\<close>

definition docs_file_world :: world where
  "docs_file_world =
     \<lparr>cwd = Path ''/'' [''w''],
      files = [([''w''], Dir), ([''w'', ''docs''], File NotToml)],
      stack_room = 900\<rparr>"

text \<open>A project whose manifest names the package \<^verbatim>\<open>p-k\<close> and gives no version.\<close>

definition no_version_world :: world where
  "no_version_world =
     \<lparr>cwd = Path ''/'' [''w''],
      files = [([''w''], Dir),
               ([''w'', ''pyproject.toml''],
                  File (Toml [(''tool'', TTable ''{'poetry': {'name': 'p-k'}}''
                                 [(''poetry'', TTable ''{'name': 'p-k'}''
                                                 [(''name'', TStr ''p-k'')])])]))],
      stack_room = 900\<rparr>"

text \<open>An empty project directory.\<close>

definition empty_world :: world where
  "empty_world = \<lparr>cwd = Path ''/'' [''w''], files = [([''w''], Dir)], stack_room = 900\<rparr>"

text \<open>
  An instance whose \<^verbatim>\<open>external_doc_dirs\<close> has been assigned \<^verbatim>\<open>['docs']\<close> before the call.
\<close>

definition DIG_docs :: DoItGlobals where
  "DIG_docs = DIG0\<lparr>external_doc_dirs := PyList [''docs'']\<rparr>"

text \<open>
  An empty file system, the root being the working directory, and a documentation
  directory 1100 levels below the root, none of them existing; the process has room for
  900 nested calls.
\<close>

definition bare_world :: world where
  "bare_world = \<lparr>cwd = Path ''/'' [], files = [], stack_room = 900\<rparr>"

definition deep_docs :: path where
  "deep_docs = Path ''/'' (replicate 1100 ''d'')"

lemma extends_refl: "extends w w"
  by (simp add: extends_def)

lemma extends_trans: "extends w w1 \<Longrightarrow> extends w1 w2 \<Longrightarrow> extends w w2"
  unfolding extends_def by (metis option.distinct(1))

lemma extends_node: "extends w w' \<Longrightarrow> node_at w k = Some nd \<Longrightarrow> node_at w' k = Some nd"
  unfolding extends_def by (metis option.distinct(1))

lemma extends_start: "extends w w' \<Longrightarrow> start w' p = start w p"
  by (simp add: extends_def start_def)

lemma walk_extends:
  "extends w w' \<Longrightarrow> walk w cur ns = Inr k \<Longrightarrow> walk w' cur ns = Inr k"
proof (induction ns arbitrary: cur)
  case Nil
  then show ?case by simp
next
  case (Cons n ns)
  from Cons.prems(2) have d: "node_at w cur = Some Dir"
    by (auto split: option.splits node.splits)
  have d': "node_at w' cur = Some Dir"
    using extends_node[OF Cons.prems(1) d] .
  from Cons.prems(2) d Cons.IH[OF Cons.prems(1)] d' show ?case
    by (auto split: if_splits)
qed

lemma walk_append:
  "walk w cur (xs @ ys) = (case walk w cur xs of Inl e \<Rightarrow> Inl e | Inr k \<Rightarrow> walk w k ys)"
  by (induction xs arbitrary: cur) (auto split: option.splits node.splits)

lemma os_stat_extends:
  assumes "extends w w'" and "os_stat w p = Inr nd"
  shows "os_stat w' p = Inr nd"
proof -
  from assms(2) obtain k where c: "path_check p = None"
    and k: "walk w (start w p) (parts p) = Inr k" and n: "node_at w k = Some nd"
    by (auto simp: os_stat_def split: option.splits sum.splits)
  from walk_extends[OF assms(1) k] extends_node[OF assms(1) n] c show ?thesis
    by (simp add: os_stat_def extends_start[OF assms(1)])
qed

lemma is_file_extends:
  assumes "extends w w'" and "is_file w p = Inr True"
  shows "is_file w' p = Inr True" and "toml_load w' p = toml_load w p"
proof -
  from assms(2) obtain c where "os_stat w p = Inr (File c)"
    by (auto simp: is_file_def split: sum.splits node.splits if_splits)
  with os_stat_extends[OF assms(1) this] show "is_file w' p = Inr True"
    and "toml_load w' p = toml_load w p"
    by (simp_all add: is_file_def toml_load_def)
qed

lemma os_mkdir_unchanged: "os_mkdir w p = (Some e, w') \<Longrightarrow> w' = w"
  by (auto simp: os_mkdir_def split: option.splits sum.splits node.splits if_splits)

lemma os_mkdir_extends: "os_mkdir w p = (r, w') \<Longrightarrow> extends w w'"
  by (auto simp: os_mkdir_def extends_def node_at_def
           split: option.splits sum.splits node.splits if_splits)

lemma os_mkdir_ok:
  assumes "os_mkdir w p = (None, w')"
  shows "is_dir w' p = Inr True"
proof -
  from assms obtain k where c: "path_check p = None"
    and k: "walk w (start w p) (butlast (parts p)) = Inr k"
    and d: "node_at w k = Some Dir"
    and l: "parts p \<noteq> []" "last (parts p) \<noteq> ''..''" "\<not> NAME_MAX < length (last (parts p))"
    and w': "w' = w\<lparr>files := (k @ [last (parts p)], Dir) # files w\<rparr>"
    by (auto simp: os_mkdir_def split: option.splits sum.splits node.splits if_splits)
  note ext = os_mkdir_extends[OF assms]
  have "parts p = butlast (parts p) @ [last (parts p)]"
    using l(1) by simp
  then have "walk w' (start w' p) (parts p) =
        (case walk w' (start w p) (butlast (parts p)) of Inl e \<Rightarrow> Inl e
         | Inr k \<Rightarrow> walk w' k [last (parts p)])"
    using walk_append[of w' "start w p" "butlast (parts p)" "[last (parts p)]"]
    by (simp add: extends_start[OF ext])
  also have "\<dots> = walk w' k [last (parts p)]"
    using walk_extends[OF ext k] by simp
  also have "\<dots> = Inr (k @ [last (parts p)])"
    using extends_node[OF ext d] l by simp
  finally have "walk w' (start w' p) (parts p) = Inr (k @ [last (parts p)])" .
  moreover have "node_at w' (k @ [last (parts p)]) = Some Dir"
    by (simp add: w' node_at_def)
  ultimately show ?thesis
    using c by (simp add: is_dir_def os_stat_def)
qed

lemma mkdir_elim:
  assumes "mkdir room w self ps ex = (r, w')"
  obtains
    (made) "os_mkdir w self = (None, w')" "r = None"
  | (tolerated) e where "os_mkdir w self = (Some e, w)" "w' = w" "is_dir w self = Inr True" "r = None"
  | (raised) e where "os_mkdir w self = (Some e, w)" "w' = w" "r = Some e"
  | (is_dir_raised) e e2 where "os_mkdir w self = (Some e, w)" "w' = w" "is_dir w self = Inl e2"
      "r = Some e2"
  | (no_room) "w' = w" "r = Some RecursionError"
  | (parent_failed) room1 e2 where "room = Suc room1"
      "mkdir room1 w (parent self) True True = (Some e2, w')" "r = Some e2"
  | (retried) room1 w2 where "room = Suc room1"
      "mkdir room1 w (parent self) True True = (None, w2)"
      "mkdir room1 w2 self False ex = (r, w')"
proof -
  obtain r1 w1 where om: "os_mkdir w self = (r1, w1)"
    by (cases "os_mkdir w self")
  show thesis
  proof (cases r1)
    case None
    with assms om made show thesis
      by (simp add: mkdir.simps[of room w self])
  next
    case (Some e)
    with om have w1: "w1 = w"
      by (simp add: os_mkdir_unchanged)
    note om = om[unfolded Some w1]
    show thesis
    proof (cases "e = FileNotFoundError")
      case fnf: True
      show thesis
      proof (cases "\<not> ps \<or> parent self = self")
        case True
        with assms om fnf raised[of e] show thesis
          by (auto simp: mkdir.simps[of room w self])
      next
        case False
        show thesis
        proof (cases room)
          case 0
          with assms om fnf False no_room show thesis
            by (auto simp: mkdir.simps[of 0 w self])
        next
          case (Suc room1)
          obtain r2 w2 where m2: "mkdir room1 w (parent self) True True = (r2, w2)"
            by (cases "mkdir room1 w (parent self) True True")
          show thesis
          proof (cases r2)
            case None
            with assms om fnf False Suc m2 retried[of room1 w2] show thesis
              by (auto simp: mkdir.simps[of "Suc room1" w self])
          next
            case (Some e2)
            with assms om fnf False Suc m2 parent_failed[of room1 e2] show thesis
              by (auto simp: mkdir.simps[of "Suc room1" w self])
          qed
        qed
      qed
    next
      case nf: False
      show thesis
      proof (cases "is_OSError e \<and> ex")
        case False
        with om nf have "mkdir room w self ps ex = (Some e, w)"
          by (auto simp: mkdir.simps[of room w self])
        with assms have "w' = w" "r = Some e"
          by simp_all
        with om raised[of e] show thesis
          by blast
      next
        case True
        show thesis
        proof (cases "is_dir w self")
          case (Inl e2)
          with om nf True have "mkdir room w self ps ex = (Some e2, w)"
            by (simp add: mkdir.simps[of room w self])
          with assms have "w' = w" "r = Some e2"
            by simp_all
          with om Inl is_dir_raised[of e e2] show thesis
            by blast
        next
          case (Inr b)
          show thesis
          proof (cases b)
            case True
            with om nf \<open>is_OSError e \<and> ex\<close> Inr have "mkdir room w self ps ex = (None, w)"
              by (simp add: mkdir.simps[of room w self])
            with assms have "w' = w" "r = None"
              by simp_all
            moreover from Inr True have "is_dir w self = Inr True"
              by simp
            ultimately show thesis
              using om tolerated[of e] by blast
          next
            case False
            with om nf \<open>is_OSError e \<and> ex\<close> Inr have "mkdir room w self ps ex = (Some e, w)"
              by (simp add: mkdir.simps[of room w self])
            with assms have "w' = w" "r = Some e"
              by simp_all
            with om raised[of e] show thesis
              by blast
          qed
        qed
      qed
    qed
  qed
qed

lemma mkdir_extends: "mkdir room w p ps ex = (r, w') \<Longrightarrow> extends w w'"
proof (induction room arbitrary: w p ps ex r w')
  case 0
  from "0.prems" show ?case
    by (cases rule: mkdir_elim) (auto intro: extends_refl os_mkdir_extends)
next
  case (Suc room)
  from Suc.prems show ?case
  proof (cases rule: mkdir_elim)
    case (parent_failed room1 e2)
    with Suc.IH show ?thesis by auto
  next
    case (retried room1 w2)
    with Suc.IH[of w "parent p" True True None w2] Suc.IH[of w2 p False ex r w'] show ?thesis
      by (auto intro: extends_trans)
  qed (auto intro: extends_refl os_mkdir_extends)
qed

lemma mkdir_ok: "mkdir room w p ps ex = (None, w') \<Longrightarrow> is_dir w' p = Inr True"
proof (induction room arbitrary: w p ps ex w')
  case 0
  from "0.prems" show ?case
    by (cases rule: mkdir_elim) (auto intro: os_mkdir_ok)
next
  case (Suc room)
  from Suc.prems show ?case
  proof (cases rule: mkdir_elim)
    case (retried room1 w2)
    with Suc.IH[of w2 p False ex w'] show ?thesis
      by auto
  qed (auto intro: os_mkdir_ok)
qed

lemma ensure_dir_extends: "ensure_dir w p = (r, w') \<Longrightarrow> extends w w'"
  unfolding ensure_dir_def logger_context_def by (rule mkdir_extends)

lemma ensure_dir_ok: "ensure_dir w p = (None, w') \<Longrightarrow> is_dir w' p = Inr True"
  unfolding ensure_dir_def logger_context_def by (rule mkdir_ok)

section \<open>Which exceptions the steps raise\<close>

lemma walk_error:
  "walk w cur ns = Inl e \<Longrightarrow>
   e \<in> {FileNotFoundError, NotADirectoryError, OSError_ENAMETOOLONG}"
  by (induction ns arbitrary: cur) (auto split: option.splits node.splits if_splits)

lemma os_stat_error:
  "os_stat w p = Inl e \<Longrightarrow>
   e \<in> {ValueError, OSError_ENAMETOOLONG, FileNotFoundError, NotADirectoryError}"
  using walk_error[of w "start w p" "parts p" e]
  by (auto simp: os_stat_def path_check_def split: option.splits sum.splits if_splits)

lemma is_file_error: "is_file w p = Inl e \<Longrightarrow> e = OSError_ENAMETOOLONG"
  using os_stat_error[of w p]
  by (auto simp: is_file_def ignore_error_def split: sum.splits node.splits if_splits)

lemma is_dir_error: "is_dir w p = Inl e \<Longrightarrow> e = OSError_ENAMETOOLONG"
  using os_stat_error[of w p]
  by (auto simp: is_dir_def ignore_error_def split: sum.splits node.splits if_splits)

lemma exists_error: "exists w p = Inl e \<Longrightarrow> e = OSError_ENAMETOOLONG"
  using os_stat_error[of w p]
  by (auto simp: exists_def ignore_error_def split: sum.splits if_splits)

lemma glob_error: "glob w p pat = Inl e \<Longrightarrow> e = OSError_ENAMETOOLONG"
  using is_dir_error[of w p]
  by (auto simp: glob_def split: sum.splits bool.splits)

lemma filter_raising_error: "filter_raising f xs = Inl e \<Longrightarrow> \<exists>x \<in> set xs. f x = Inl e"
  by (induction xs) (auto split: sum.splits)

lemma filter_raising_Inr:
  "filter_raising f xs = Inr ys \<Longrightarrow> ys = filter (\<lambda>x. f x = Inr True) xs"
  by (induction xs arbitrary: ys) (auto split: sum.splits)

lemma toml_load_error:
  "toml_load w p = Inl e \<Longrightarrow>
   e \<in> {ValueError, OSError_ENAMETOOLONG, FileNotFoundError, NotADirectoryError,
        IsADirectoryError, UnicodeDecodeError, TomlDecodeError}"
  using os_stat_error[of w p]
  by (auto simp: toml_load_def split: sum.splits node.splits content.splits)

lemma getitem_Inl: "getitem d k = Inl e \<Longrightarrow> e = KeyError k"
  by (auto simp: getitem_def split: option.splits)

lemma getitem_Inr: "getitem d k = Inr v \<longleftrightarrow> map_of d k = Some v"
  by (auto simp: getitem_def split: option.splits)

lemma subscript_Inl: "subscript t k = Inl e \<Longrightarrow> e = KeyError k \<or> e = TypeError"
  by (cases t) (auto dest: getitem_Inl)

lemma subscript_Inr: "subscript t k = Inr v \<Longrightarrow> \<exists>r kv. t = TTable r kv \<and> map_of kv k = Some v"
  by (cases t) (auto simp: getitem_Inr)

lemma py_in_Inl: "py_in sub v = Inl e \<Longrightarrow> e = TypeError"
  by (cases v) auto

lemma truediv_value_Inl: "truediv_value p v = Inl e \<Longrightarrow> e = TypeError"
  by (cases v) auto

lemma truediv_value_Inr: "truediv_value p v = Inr q \<Longrightarrow> \<exists>n. v = TStr n \<and> q = truediv p n"
  by (cases v) auto

lemma contains_char: "contains s [c] = (c \<in> set s)"
  by (induction s) auto

lemma os_mkdir_error:
  "os_mkdir w p = (Some e, w') \<Longrightarrow>
   e \<in> {ValueError, OSError_ENAMETOOLONG, FileNotFoundError, NotADirectoryError,
        FileExistsError}"
  using walk_error[of w "start w p" "butlast (parts p)" e]
  by (auto simp: os_mkdir_def path_check_def
           split: option.splits sum.splits node.splits if_splits)

lemma mkdir_error:
  "mkdir room w p ps ex = (Some e, w') \<Longrightarrow>
   e \<in> {ValueError, OSError_ENAMETOOLONG, FileNotFoundError, NotADirectoryError,
        FileExistsError, RecursionError}"
proof (induction room arbitrary: w p ps ex w')
  case 0
  from "0.prems" show ?case
    by (cases rule: mkdir_elim) (auto dest: os_mkdir_error is_dir_error)
next
  case (Suc room)
  from Suc.prems show ?case
  proof (cases rule: mkdir_elim)
    case (parent_failed room1 e2)
    with Suc.IH[of w "parent p" True True w'] show ?thesis
      by simp
  next
    case (retried room1 w2)
    with Suc.IH[of w2 p False ex w'] show ?thesis
      by simp
  qed (auto dest: os_mkdir_error is_dir_error)
qed

lemma ensure_dir_error:
  "ensure_dir w p = (Some e, w') \<Longrightarrow>
   e \<in> {ValueError, OSError_ENAMETOOLONG, FileNotFoundError, NotADirectoryError,
        FileExistsError, RecursionError}"
  unfolding ensure_dir_def logger_context_def by (rule mkdir_error)

section \<open>Joining literal names\<close>

lemma name_truediv_toml: "name (truediv p ''pyproject.toml'') = ''pyproject.toml''"
  by (simp add: truediv_def parse_parts_def splitroot_def name_def)

lemma parent_truediv_toml: "parent (truediv p ''pyproject.toml'') = p"
  by (cases p) (simp add: truediv_def parse_parts_def splitroot_def parent_def)

lemma name_truediv_req: "name (truediv p ''requirements.txt'') = ''requirements.txt''"
  by (simp add: truediv_def parse_parts_def splitroot_def name_def)

lemma parent_truediv_req: "parent (truediv p ''requirements.txt'') = p"
  by (cases p) (simp add: truediv_def parse_parts_def splitroot_def parent_def)

lemma truediv_tests: "truediv p ''tests'' = Path (root p) (parts p @ [''tests''])"
  by (simp add: truediv_def parse_parts_def splitroot_def)

section \<open>The branches of \<^verbatim>\<open>set_paths\<close>\<close>

lemma set_paths_default_root:
  "set_paths s w a None c = set_paths s w a (Some (Path_cwd w)) c"
  by (simp add: set_paths_def)

lemma set_paths_normal:
  assumes "p = (case a_src of None \<Rightarrow> Path_cwd w | Some q \<Rightarrow> q)"
      and "d = (case a_doc of None \<Rightarrow> truediv p ''docs'' | Some q \<Rightarrow> q)"
  shows "set_paths s w a a_src a_doc = set_paths s w a (Some p) (Some d)"
  using assms by (simp add: set_paths_def split: option.splits)

lemma set_paths_cases:
  assumes run: "set_paths s w a (Some p) (Some d) = (r, s', w')"
  obtains
    (ensure_failed) e where
      "ensure_dir w (truediv d ''templates'') = (Some e, w')"
      "r = Some e"
      "s' = dirs_set s p d"
  | (is_file_raised) e where
      "ensure_dir w (truediv d ''templates'') = (None, w')"
      "is_file w' (truediv p ''pyproject.toml'') = Inl e"
      "r = Some e"
      "s' = paths_set s p d"
  | (no_manifest)
      "ensure_dir w (truediv d ''templates'') = (None, w')"
      "is_file w' (truediv p ''pyproject.toml'') = Inr False"
      "r = Some (RuntimeError (missing_message p))"
      "s' = paths_set s p d"
  | (load_raised) e where
      "ensure_dir w (truediv d ''templates'') = (None, w')"
      "is_file w' (truediv p ''pyproject.toml'') = Inr True"
      "toml_load w' (truediv p ''pyproject.toml'') = Inl e"
      "r = Some e"
      "s' = paths_set s p d"
  | (no_tool) doc e where
      "ensure_dir w (truediv d ''templates'') = (None, w')"
      "is_file w' (truediv p ''pyproject.toml'') = Inr True"
      "toml_load w' (truediv p ''pyproject.toml'') = Inr doc"
      "getitem doc ''tool'' = Inl e"
      "r = Some e"
      "s' = paths_set s p d"
  | (no_poetry) doc tool e where
      "ensure_dir w (truediv d ''templates'') = (None, w')"
      "is_file w' (truediv p ''pyproject.toml'') = Inr True"
      "toml_load w' (truediv p ''pyproject.toml'') = Inr doc"
      "getitem doc ''tool'' = Inr tool"
      "subscript tool ''poetry'' = Inl e"
      "r = Some e"
      "s' = paths_set s p d"
  | (no_version) doc tool pc e where
      "ensure_dir w (truediv d ''templates'') = (None, w')"
      "is_file w' (truediv p ''pyproject.toml'') = Inr True"
      "toml_load w' (truediv p ''pyproject.toml'') = Inr doc"
      "getitem doc ''tool'' = Inr tool"
      "subscript tool ''poetry'' = Inr pc"
      "subscript pc ''version'' = Inl e"
      "r = Some e"
      "s' = paths_set s p d"
  | (no_name) doc tool pc v e where
      "ensure_dir w (truediv d ''templates'') = (None, w')"
      "is_file w' (truediv p ''pyproject.toml'') = Inr True"
      "toml_load w' (truediv p ''pyproject.toml'') = Inr doc"
      "getitem doc ''tool'' = Inr tool"
      "subscript tool ''poetry'' = Inr pc"
      "subscript pc ''version'' = Inr v"
      "subscript pc ''name'' = Inl e"
      "r = Some e"
      "s' = (paths_set s p d)\<lparr>pkg_version := Some v\<rparr>"
  | (not_iterable) doc tool pc v nm e where
      "ensure_dir w (truediv d ''templates'') = (None, w')"
      "is_file w' (truediv p ''pyproject.toml'') = Inr True"
      "toml_load w' (truediv p ''pyproject.toml'') = Inr doc"
      "getitem doc ''tool'' = Inr tool"
      "subscript tool ''poetry'' = Inr pc"
      "subscript pc ''version'' = Inr v"
      "subscript pc ''name'' = Inr nm"
      "py_in ''-'' nm = Inl e"
      "r = Some e"
      "s' = named_set s p d v nm"
  | (dash) doc tool pc v nm where
      "ensure_dir w (truediv d ''templates'') = (None, w')"
      "is_file w' (truediv p ''pyproject.toml'') = Inr True"
      "toml_load w' (truediv p ''pyproject.toml'') = Inr doc"
      "getitem doc ''tool'' = Inr tool"
      "subscript tool ''poetry'' = Inr pc"
      "subscript pc ''version'' = Inr v"
      "subscript pc ''name'' = Inr nm"
      "py_in ''-'' nm = Inr True"
      "r = Some (RuntimeError (dash_message (py_str nm) p))"
      "s' = named_set s p d v nm"
  | (is_dir_raised) doc tool pc v nm e where
      "ensure_dir w (truediv d ''templates'') = (None, w')"
      "is_file w' (truediv p ''pyproject.toml'') = Inr True"
      "toml_load w' (truediv p ''pyproject.toml'') = Inr doc"
      "getitem doc ''tool'' = Inr tool"
      "subscript tool ''poetry'' = Inr pc"
      "subscript pc ''version'' = Inr v"
      "subscript pc ''name'' = Inr nm"
      "py_in ''-'' nm = Inr False"
      "is_dir w' (truediv p ''tests/examples'') = Inl e"
      "r = Some e"
      "s' = examples_set s p d v nm True"
  | (dirs_not_list) doc tool pc v nm b where
      "ensure_dir w (truediv d ''templates'') = (None, w')"
      "is_file w' (truediv p ''pyproject.toml'') = Inr True"
      "toml_load w' (truediv p ''pyproject.toml'') = Inr doc"
      "getitem doc ''tool'' = Inr tool"
      "subscript tool ''poetry'' = Inr pc"
      "subscript pc ''version'' = Inr v"
      "subscript pc ''name'' = Inr nm"
      "py_in ''-'' nm = Inr False"
      "is_dir w' (truediv p ''tests/examples'') = Inr b"
      "\<And>ds. external_doc_dirs s \<noteq> PyList ds"
      "r = Some TypeError"
      "s' = examples_set s p d v nm b"
  | (name_not_string) doc tool pc v nm b ds e where
      "ensure_dir w (truediv d ''templates'') = (None, w')"
      "is_file w' (truediv p ''pyproject.toml'') = Inr True"
      "toml_load w' (truediv p ''pyproject.toml'') = Inr doc"
      "getitem doc ''tool'' = Inr tool"
      "subscript tool ''poetry'' = Inr pc"
      "subscript pc ''version'' = Inr v"
      "subscript pc ''name'' = Inr nm"
      "py_in ''-'' nm = Inr False"
      "is_dir w' (truediv p ''tests/examples'') = Inr b"
      "external_doc_dirs s = PyList ds"
      "truediv_value p nm = Inl e"
      "r = Some e"
      "s' = examples_set s p d v nm b"
  | (glob_raised) doc tool pc v nm b ds n e where
      "ensure_dir w (truediv d ''templates'') = (None, w')"
      "is_file w' (truediv p ''pyproject.toml'') = Inr True"
      "toml_load w' (truediv p ''pyproject.toml'') = Inr doc"
      "getitem doc ''tool'' = Inr tool"
      "subscript tool ''poetry'' = Inr pc"
      "subscript pc ''version'' = Inr v"
      "subscript pc ''name'' = Inr nm"
      "py_in ''-'' nm = Inr False"
      "is_dir w' (truediv p ''tests/examples'') = Inr b"
      "external_doc_dirs s = PyList ds"
      "nm = TStr n"
      "glob w' p ''*.py'' = Inl e"
      "r = Some e"
      "s' = (examples_set s p d v nm b)\<lparr>lint_paths := PyList (truediv p n # map (truediv p) ds)\<rparr>"
  | (exists_raised) doc tool pc v nm b ds n g e where
      "ensure_dir w (truediv d ''templates'') = (None, w')"
      "is_file w' (truediv p ''pyproject.toml'') = Inr True"
      "toml_load w' (truediv p ''pyproject.toml'') = Inr doc"
      "getitem doc ''tool'' = Inr tool"
      "subscript tool ''poetry'' = Inr pc"
      "subscript pc ''version'' = Inr v"
      "subscript pc ''name'' = Inr nm"
      "py_in ''-'' nm = Inr False"
      "is_dir w' (truediv p ''tests/examples'') = Inr b"
      "external_doc_dirs s = PyList ds"
      "nm = TStr n"
      "glob w' p ''*.py'' = Inr g"
      "filter_raising (exists w') (truediv p n # map (truediv p) ds @ truediv p ''tests'' # g) = Inl e"
      "r = Some e"
      "s' = (examples_set s p d v nm b)\<lparr>lint_paths := PyList (truediv p n # map (truediv p) ds @ truediv p ''tests'' # g)\<rparr>"
  | (finished) doc tool pc v nm b ds n g kept where
      "ensure_dir w (truediv d ''templates'') = (None, w')"
      "is_file w' (truediv p ''pyproject.toml'') = Inr True"
      "toml_load w' (truediv p ''pyproject.toml'') = Inr doc"
      "getitem doc ''tool'' = Inr tool"
      "subscript tool ''poetry'' = Inr pc"
      "subscript pc ''version'' = Inr v"
      "subscript pc ''name'' = Inr nm"
      "py_in ''-'' nm = Inr False"
      "is_dir w' (truediv p ''tests/examples'') = Inr b"
      "external_doc_dirs s = PyList ds"
      "nm = TStr n"
      "glob w' p ''*.py'' = Inr g"
      "filter_raising (exists w') (truediv p n # map (truediv p) ds @ truediv p ''tests'' # g) = Inr kept"
      "r = None"
      "s' = (examples_set s p d v nm b)\<lparr>lint_paths := PySet (set kept)\<rparr>"
proof -
  note defs = set_paths_def Let_def name_truediv_toml
  note dels = filter.simps filter_append set_filter set_append set_map list.simps
  obtain r1 w1 where en0: "ensure_dir w (truediv d ''templates'') = (r1, w1)"
    by (cases "ensure_dir w (truediv d ''templates'')")
  show thesis
  proof (cases r1)
    case (Some e)
    note en = en0[unfolded Some]
    have "set_paths s w a (Some p) (Some d) = (Some e, dirs_set s p d, w1)"
      using en by (simp add: defs del: dels)
    with run have "r = Some e" "s' = dirs_set s p d" "w' = w1"
      by simp_all
    with en ensure_failed[of e] show thesis
      by blast
  next
    case None
    note en = en0[unfolded None]
    show thesis
    proof (cases "is_file w1 (truediv p ''pyproject.toml'')")
      case isf: (Inl e)
      have "set_paths s w a (Some p) (Some d) = (Some e, paths_set s p d, w1)"
        using en isf by (simp add: defs del: dels)
      with run have "r = Some e" "s' = paths_set s p d" "w' = w1"
        by simp_all
      with en isf is_file_raised[of e] show thesis
        by blast
    next
      case isf0: (Inr b0)
      show thesis
      proof (cases b0)
        case False
        from isf0 False have isf: "is_file w1 (truediv p ''pyproject.toml'') = Inr False"
          by simp
        have "set_paths s w a (Some p) (Some d) = (Some (RuntimeError (missing_message p)), paths_set s p d, w1)"
          using en isf by (simp add: defs del: dels)
        with run have "r = Some (RuntimeError (missing_message p))" "s' = paths_set s p d" "w' = w1"
          by simp_all
        with en isf no_manifest show thesis
          by blast
      next
        case True
        from isf0 True have isf: "is_file w1 (truediv p ''pyproject.toml'') = Inr True"
          by simp
        show thesis
          proof (cases "toml_load w1 (truediv p ''pyproject.toml'')")
            case ld: (Inl e)
            have "set_paths s w a (Some p) (Some d) = (Some e, paths_set s p d, w1)"
              using en isf ld by (simp add: defs del: dels)
            with run have "r = Some e" "s' = paths_set s p d" "w' = w1"
              by simp_all
            with en isf ld load_raised[of e] show thesis
              by blast
          next
            case ld: (Inr doc)
            show thesis
            proof (cases "getitem doc ''tool''")
              case tl: (Inl e)
              have "set_paths s w a (Some p) (Some d) = (Some e, paths_set s p d, w1)"
                using en isf ld tl by (simp add: defs del: dels)
              with run have "r = Some e" "s' = paths_set s p d" "w' = w1"
                by simp_all
              with en isf ld tl no_tool[of doc e] show thesis
                by blast
            next
              case tl: (Inr tool)
              show thesis
              proof (cases "subscript tool ''poetry''")
                case pt: (Inl e)
                have "set_paths s w a (Some p) (Some d) = (Some e, paths_set s p d, w1)"
                  using en isf ld tl pt by (simp add: defs del: dels)
                with run have "r = Some e" "s' = paths_set s p d" "w' = w1"
                  by simp_all
                with en isf ld tl pt no_poetry[of doc tool e] show thesis
                  by blast
              next
                case pt: (Inr pc)
                show thesis
                proof (cases "subscript pc ''version''")
                  case vr: (Inl e)
                  have "set_paths s w a (Some p) (Some d) = (Some e, paths_set s p d, w1)"
                    using en isf ld tl pt vr by (simp add: defs del: dels)
                  with run have "r = Some e" "s' = paths_set s p d" "w' = w1"
                    by simp_all
                  with en isf ld tl pt vr no_version[of doc tool pc e] show thesis
                    by blast
                next
                  case vr: (Inr v)
                  show thesis
                  proof (cases "subscript pc ''name''")
                    case nme: (Inl e)
                    have "set_paths s w a (Some p) (Some d) = (Some e, (paths_set s p d)\<lparr>pkg_version := Some v\<rparr>, w1)"
                      using en isf ld tl pt vr nme by (simp add: defs del: dels)
                    with run have "r = Some e" "s' = (paths_set s p d)\<lparr>pkg_version := Some v\<rparr>" "w' = w1"
                      by simp_all
                    with en isf ld tl pt vr nme no_name[of doc tool pc v e] show thesis
                      by blast
                  next
                    case nme: (Inr nm)
                    show thesis
                    proof (cases "py_in ''-'' nm")
                      case dsh: (Inl e)
                      have "set_paths s w a (Some p) (Some d) = (Some e, named_set s p d v nm, w1)"
                        using en isf ld tl pt vr nme dsh by (simp add: defs del: dels)
                      with run have "r = Some e" "s' = named_set s p d v nm" "w' = w1"
                        by simp_all
                      with en isf ld tl pt vr nme dsh not_iterable[of doc tool pc v nm e] show thesis
                        by blast
                    next
                      case dsh0: (Inr b0)
                      show thesis
                      proof (cases b0)
                        case True
                        from dsh0 True have dsh: "py_in ''-'' nm = Inr True"
                          by simp
                        have "set_paths s w a (Some p) (Some d) = (Some (RuntimeError (dash_message (py_str nm) p)), named_set s p d v nm, w1)"
                          using en isf ld tl pt vr nme dsh by (simp add: defs del: dels)
                        with run have "r = Some (RuntimeError (dash_message (py_str nm) p))" "s' = named_set s p d v nm" "w' = w1"
                          by simp_all
                        with en isf ld tl pt vr nme dsh dash[of doc tool pc v nm] show thesis
                          by blast
                      next
                        case False
                        from dsh0 False have dsh: "py_in ''-'' nm = Inr False"
                          by simp
                        show thesis
                          proof (cases "is_dir w1 (truediv p ''tests/examples'')")
                            case isd: (Inl e)
                            have "set_paths s w a (Some p) (Some d) = (Some e, examples_set s p d v nm True, w1)"
                              using en isf ld tl pt vr nme dsh isd by (simp add: defs del: dels)
                            with run have "r = Some e" "s' = examples_set s p d v nm True" "w' = w1"
                              by simp_all
                            with en isf ld tl pt vr nme dsh isd is_dir_raised[of doc tool pc v nm e] show thesis
                              by blast
                          next
                            case isd: (Inr b)
                            show thesis
                            proof (cases "external_doc_dirs s")
                              case dl: (PyTuple xs)
                              then have nl: "\<And>ds. external_doc_dirs s \<noteq> PyList ds"
                                by simp
                              have "set_paths s w a (Some p) (Some d) = (Some TypeError, examples_set s p d v nm b, w1)"
                                using en isf ld tl pt vr nme dsh isd dl by (simp add: defs del: dels)
                              with run have "r = Some TypeError" "s' = examples_set s p d v nm b" "w' = w1"
                                by simp_all
                              with en isf ld tl pt vr nme dsh isd nl dirs_not_list[of doc tool pc v nm b] show thesis
                                by blast
                            next
                              case dl: (PySet xs)
                              then have nl: "\<And>ds. external_doc_dirs s \<noteq> PyList ds"
                                by simp
                              have "set_paths s w a (Some p) (Some d) = (Some TypeError, examples_set s p d v nm b, w1)"
                                using en isf ld tl pt vr nme dsh isd dl by (simp add: defs del: dels)
                              with run have "r = Some TypeError" "s' = examples_set s p d v nm b" "w' = w1"
                                by simp_all
                              with en isf ld tl pt vr nme dsh isd nl dirs_not_list[of doc tool pc v nm b] show thesis
                                by blast
                            next
                              case dl: (PyList ds)
                              show thesis
                              proof (cases "truediv_value p nm")
                                case tv: (Inl e)
                                have "set_paths s w a (Some p) (Some d) = (Some e, examples_set s p d v nm b, w1)"
                                  using en isf ld tl pt vr nme dsh isd dl tv by (simp add: defs del: dels)
                                with run have "r = Some e" "s' = examples_set s p d v nm b" "w' = w1"
                                  by simp_all
                                with en isf ld tl pt vr nme dsh isd dl tv name_not_string[of doc tool pc v nm b ds e] show thesis
                                  by blast
                              next
                                case tv: (Inr pn)
                                from truediv_value_Inr[OF tv] obtain n where ns: "nm = TStr n" and pn: "pn = truediv p n"
                                  by blast
                                show thesis
                                proof (cases "glob w1 p ''*.py''")
                                  case gl: (Inl e)
                                  have "set_paths s w a (Some p) (Some d) = (Some e, (examples_set s p d v nm b)\<lparr>lint_paths := PyList (truediv p n # map (truediv p) ds)\<rparr>, w1)"
                                    using en isf ld tl pt vr nme dsh isd dl tv ns pn gl by (simp add: defs del: dels)
                                  with run have "r = Some e" "s' = (examples_set s p d v nm b)\<lparr>lint_paths := PyList (truediv p n # map (truediv p) ds)\<rparr>" "w' = w1"
                                    by simp_all
                                  with en isf ld tl pt vr nme dsh isd dl tv ns pn gl glob_raised[of doc tool pc v nm b ds n e] show thesis
                                    by blast
                                next
                                  case gl: (Inr g)
                                  show thesis
                                  proof (cases "filter_raising (exists w1) (truediv p n # map (truediv p) ds @ truediv p ''tests'' # g)")
                                    case fr: (Inl e)
                                    have "set_paths s w a (Some p) (Some d) = (Some e, (examples_set s p d v nm b)\<lparr>lint_paths := PyList (truediv p n # map (truediv p) ds @ truediv p ''tests'' # g)\<rparr>, w1)"
                                      using en isf ld tl pt vr nme dsh isd dl tv ns pn gl fr by (simp add: defs del: dels)
                                    with run have "r = Some e" "s' = (examples_set s p d v nm b)\<lparr>lint_paths := PyList (truediv p n # map (truediv p) ds @ truediv p ''tests'' # g)\<rparr>" "w' = w1"
                                      by simp_all
                                    with en isf ld tl pt vr nme dsh isd dl tv ns pn gl fr exists_raised[of doc tool pc v nm b ds n g e] show thesis
                                      by blast
                                  next
                                    case fr: (Inr kept)
                                    have "set_paths s w a (Some p) (Some d) = (None, (examples_set s p d v nm b)\<lparr>lint_paths := PySet (set kept)\<rparr>, w1)"
                                      using en isf ld tl pt vr nme dsh isd dl tv ns pn gl fr by (simp add: defs del: dels)
                                    with run have "r = None" "s' = (examples_set s p d v nm b)\<lparr>lint_paths := PySet (set kept)\<rparr>" "w' = w1"
                                      by simp_all
                                    with en isf ld tl pt vr nme dsh isd dl tv ns pn gl fr finished[of doc tool pc v nm b ds n g kept] show thesis
                                      by blast
                                  qed
                                qed
                              qed
                            qed
                          qed
                      qed
                    qed
                  qed
                qed
              qed
            qed
          qed
      qed
    qed
  qed
qed

section \<open>What the manifest check sees\<close>

lemma truediv_toml: "truediv p ''pyproject.toml'' = Path (root p) (parts p @ [''pyproject.toml''])"
  by (simp add: truediv_def parse_parts_def splitroot_def)

lemma toml_load_is_file: "toml_load w p = Inr doc \<Longrightarrow> is_file w p = Inr True"
  by (auto simp: toml_load_def is_file_def split: sum.splits node.splits content.splits)

lemma is_file_False_extends:
  assumes ext: "extends w w1"
      and k: "walk w (start w p) (parts p) = Inr k"
      and f: "is_file w p = Inr False"
  shows "is_file w1 p = Inr False"
proof (cases "path_check p")
  case (Some e)
  with f show ?thesis
    by (auto simp: is_file_def os_stat_def split: if_splits)
next
  case None
  from f None k have "node_at w k = None \<or> node_at w k = Some Dir"
    by (auto simp: is_file_def os_stat_def ignore_error_def
             split: option.splits node.splits if_splits)
  with ext have "node_at w1 k = None \<or> node_at w1 k = Some Dir"
    unfolding extends_def by metis
  with None walk_extends[OF ext k] show ?thesis
    by (auto simp: is_file_def os_stat_def ignore_error_def extends_start[OF ext])
qed

lemma walk_manifest:
  assumes "is_dir w p = Inr True"
  shows "\<exists>k. walk w (start w (truediv p ''pyproject.toml'')) (parts (truediv p ''pyproject.toml''))
              = Inr k"
proof -
  from assms obtain k where k: "walk w (start w p) (parts p) = Inr k"
    and d: "node_at w k = Some Dir"
    by (auto simp: is_dir_def os_stat_def split: option.splits sum.splits node.splits if_splits)
  have "walk w (start w p) (parts p @ [''pyproject.toml'']) = Inr (k @ [''pyproject.toml''])"
    using k d by (simp add: walk_append NAME_MAX_def)
  then show ?thesis
    by (simp add: truediv_toml start_def)
qed

section \<open>The claims\<close>

text \<open>The example projects are evaluated by unfolding these definitions.\<close>

lemmas eval_defs =
  demo_world_def demo_manifest_def quoted_def DIG0_def DoItGlobals_init_def
  set_paths_def ensure_dir_def logger_context_def mkdir.simps os_mkdir_def os_stat_def
  path_check_def has_nul_def NAME_MAX_def PATH_MAX_def start_def node_at_def parent_def
  is_dir_def is_file_def exists_def ignore_error_def is_OSError_def Path_cwd_def
  truediv_def parse_parts_def splitroot_def toml_load_def getitem_def glob_def scandir_def
  str_def name_def Let_def

lemma demo_run_ok: "fst (set_paths DIG0 (demo_world ''pk'') a None None) = None"
  by (simp add: eval_defs)

lemma demo_root: "Path ''/'' [''w''] = (case None of None \<Rightarrow> Path_cwd (demo_world n) | Some q \<Rightarrow> q)"
  by (simp add: Path_cwd_def demo_world_def)

lemma demo_docs:
  "Path ''/'' [''w'', ''docs''] =
     (case None of None \<Rightarrow> truediv (Path ''/'' [''w'']) ''docs'' | Some q \<Rightarrow> q)"
  by (simp add: truediv_def parse_parts_def splitroot_def)

text \<open>
  C1, with the order of the program. \<^verbatim>\<open>set_paths\<close> first creates \<^verbatim>\<open>doc_dir / 'templates'\<close>
  (line 106) and then looks for the manifest (line 112). For every root \<open>p\<close> on which
  \<^verbatim>\<open>ensure_dir\<close> returns: if \<^verbatim>\<open>p / 'pyproject.toml'\<close> is not a file when line 112 looks, the
  call raises the \<^verbatim>\<open>RuntimeError\<close> that names \<^verbatim>\<open>pyproject.toml\<close> and \<open>p\<close>; and it is not a file
  then whenever \<open>p\<close> is a directory and \<^verbatim>\<open>p / 'pyproject.toml'\<close> is not a file before the call.
\<close>

theorem set_paths_missing_manifest:
  assumes "p = (case a_src of None \<Rightarrow> Path_cwd w | Some q \<Rightarrow> q)"
      and "d = (case a_doc of None \<Rightarrow> truediv p ''docs'' | Some q \<Rightarrow> q)"
      and "ensure_dir w (truediv d ''templates'') = (None, w1)"
  shows "(is_file w1 (truediv p ''pyproject.toml'') = Inr False \<longrightarrow>
            fst (set_paths s w a_pkg a_src a_doc) =
              Some (RuntimeError (''Could not find pyproject.toml. Check that the '' @ str p
                                    @ '' is correct''))) \<and>
         (is_dir w p = Inr True \<and> is_file w (truediv p ''pyproject.toml'') = Inr False \<longrightarrow>
            fst (set_paths s w a_pkg a_src a_doc) =
              Some (RuntimeError (''Could not find pyproject.toml. Check that the '' @ str p
                                    @ '' is correct'')))"
proof -
  have later: "fst (set_paths s w a_pkg a_src a_doc) = Some (RuntimeError (missing_message p))"
    if f: "is_file w1 (truediv p ''pyproject.toml'') = Inr False"
  proof -
    obtain r s' w' where "set_paths s w a_pkg a_src a_doc = (r, s', w')"
      by (cases "set_paths s w a_pkg a_src a_doc")
    then have run: "set_paths s w a_pkg (Some p) (Some d) = (r, s', w')"
      and res: "fst (set_paths s w a_pkg a_src a_doc) = r"
      by (simp_all add: set_paths_normal[OF assms(1,2)])
    from run have "r = Some (RuntimeError (missing_message p))"
      by (cases rule: set_paths_cases) (use assms(3) f in auto)
    with res show ?thesis
      by simp
  qed
  have "is_file w1 (truediv p ''pyproject.toml'') = Inr False"
    if "is_dir w p = Inr True" "is_file w (truediv p ''pyproject.toml'') = Inr False"
  proof -
    from walk_manifest[OF that(1)] obtain k where
      "walk w (start w (truediv p ''pyproject.toml'')) (parts (truediv p ''pyproject.toml''))
         = Inr k"
      by blast
    from is_file_False_extends[OF ensure_dir_extends[OF assms(3)] this that(2)] show ?thesis .
  qed
  with later show ?thesis
    by blast
qed

theorem set_paths_missing_manifest_witness:
  "fst (ensure_dir empty_world (Path ''/'' [''w'', ''docs'', ''templates''])) = None \<and>
   is_dir empty_world (Path ''/'' [''w'']) = Inr True \<and>
   is_file empty_world (Path ''/'' [''w'', ''pyproject.toml'']) = Inr False \<and>
   fst (set_paths DIG0 empty_world None None None) =
     Some (RuntimeError ''Could not find pyproject.toml. Check that the /w is correct'')"
proof -
  have e: "fst (ensure_dir empty_world (Path ''/'' [''w'', ''docs'', ''templates''])) = None"
    by (simp add: eval_defs empty_world_def)
  then obtain w1 where
    en: "ensure_dir empty_world (truediv (Path ''/'' [''w'', ''docs'']) ''templates'') = (None, w1)"
    by (cases "ensure_dir empty_world (Path ''/'' [''w'', ''docs'', ''templates''])")
       (auto simp: truediv_def parse_parts_def splitroot_def)
  have root: "Path ''/'' [''w''] = (case None of None \<Rightarrow> Path_cwd empty_world | Some q \<Rightarrow> q)"
    by (simp add: Path_cwd_def empty_world_def)
  have pre: "is_dir empty_world (Path ''/'' [''w'']) = Inr True"
    "is_file empty_world (Path ''/'' [''w'', ''pyproject.toml'']) = Inr False"
    by (simp_all add: eval_defs empty_world_def)
  then have "is_dir empty_world (Path ''/'' [''w'']) = Inr True \<and>
     is_file empty_world (truediv (Path ''/'' [''w'']) ''pyproject.toml'') = Inr False"
    by (simp add: truediv_def parse_parts_def splitroot_def)
  with set_paths_missing_manifest[OF root demo_docs en, of DIG0 None]
  have "fst (set_paths DIG0 empty_world None None None) =
     Some (RuntimeError (''Could not find pyproject.toml. Check that the ''
                           @ str (Path ''/'' [''w'']) @ '' is correct''))"
    by blast
  with e pre show ?thesis
    by (simp add: str_def)
qed

theorem set_paths_missing_manifest_counterexample:
  "is_file docs_file_world (Path ''/'' [''w'', ''pyproject.toml'']) = Inr False \<and>
   fst (set_paths DIG0 docs_file_world None (Some (Path ''/'' [''w''])) None)
     = Some NotADirectoryError"
  by (simp add: eval_defs docs_file_world_def)

text \<open>
  C2, with the order of the program. For every root on which \<^verbatim>\<open>ensure_dir\<close> returns and
  whose manifest decodes to a document with a \<^verbatim>\<open>[tool.poetry]\<close> table holding a version and
  a name that is a string: if the name contains \<^verbatim>\<open>-\<close>, \<^verbatim>\<open>set_paths\<close> raises the \<^verbatim>\<open>RuntimeError\<close>
  that quotes the name and asks for underscores; if it contains none, control passes line 118
  (\<^verbatim>\<open>tmp_examples_dir\<close> is assigned), the call raises nothing or an \<^verbatim>\<open>OSError\<close> of a name too
  long or a \<^verbatim>\<open>TypeError\<close>, and it returns exactly when the later steps do: \<^verbatim>\<open>is_dir\<close> (line 122),
  \<^verbatim>\<open>external_doc_dirs\<close> being a list (line 126), \<^verbatim>\<open>glob\<close> (line 128) and \<^verbatim>\<open>exists\<close> (line 129).
\<close>

theorem set_paths_dash_in_name:
  assumes "p = (case a_src of None \<Rightarrow> Path_cwd w | Some q \<Rightarrow> q)"
      and "d = (case a_doc of None \<Rightarrow> truediv p ''docs'' | Some q \<Rightarrow> q)"
      and "ensure_dir w (truediv d ''templates'') = (None, w1)"
      and "toml_load w1 (truediv p ''pyproject.toml'') = Inr doc"
      and "map_of doc ''tool'' = Some (TTable r1 tool)"
      and "map_of tool ''poetry'' = Some (TTable r2 poetry)"
      and "map_of poetry ''version'' = Some v"
      and "map_of poetry ''name'' = Some (TStr n)"
  shows "(CHR ''-'' \<in> set n \<longrightarrow>
            fst (set_paths s w a_pkg a_src a_doc) =
              Some (RuntimeError (''Replace dashes in name with underscores ('' @ n @ '') in ''
                                    @ str (truediv p ''pyproject.toml'')))) \<and>
         (CHR ''-'' \<notin> set n \<longrightarrow>
            fst (set_paths s w a_pkg a_src a_doc)
              \<in> {None, Some OSError_ENAMETOOLONG, Some TypeError} \<and>
            tmp_examples_dir (fst (snd (set_paths s w a_pkg a_src a_doc)))
              = Some (truediv p (n @ ''/0EX'')) \<and>
            (fst (set_paths s w a_pkg a_src a_doc) = None \<longleftrightarrow>
               (\<exists>b ds g kept.
                  is_dir w1 (truediv p ''tests/examples'') = Inr b \<and>
                  external_doc_dirs s = PyList ds \<and>
                  glob w1 p ''*.py'' = Inr g \<and>
                  filter_raising (exists w1)
                    (truediv p n # map (truediv p) ds @ truediv p ''tests'' # g) = Inr kept)))"
proof -
  obtain r s' w' where run0: "set_paths s w a_pkg a_src a_doc = (r, s', w')"
    by (cases "set_paths s w a_pkg a_src a_doc")
  then have run: "set_paths s w a_pkg (Some p) (Some d) = (r, s', w')"
    by (simp add: set_paths_normal[OF assms(1,2)])
  note isf = toml_load_is_file[OF assms(4)]
  have tables: "getitem doc ''tool'' = Inr (TTable r1 tool)"
    "subscript (TTable r1 tool) ''poetry'' = Inr (TTable r2 poetry)"
    "subscript (TTable r2 poetry) ''version'' = Inr v"
    "subscript (TTable r2 poetry) ''name'' = Inr (TStr n)"
    using assms(5-8) by (simp_all add: getitem_Inr)
  note given = assms(3,4) isf tables
  from run have
    "(CHR ''-'' \<in> set n \<longrightarrow> r = Some (RuntimeError (dash_message n p))) \<and>
     (CHR ''-'' \<notin> set n \<longrightarrow>
        r \<in> {None, Some OSError_ENAMETOOLONG, Some TypeError} \<and>
        tmp_examples_dir s' = Some (truediv p (n @ ''/0EX'')) \<and>
        (r = None \<longleftrightarrow>
           (\<exists>b ds g kept.
              is_dir w1 (truediv p ''tests/examples'') = Inr b \<and>
              external_doc_dirs s = PyList ds \<and>
              glob w1 p ''*.py'' = Inr g \<and>
              filter_raising (exists w1)
                (truediv p n # map (truediv p) ds @ truediv p ''tests'' # g) = Inr kept)))"
  proof (cases rule: set_paths_cases)
    case (not_iterable doc tool pc v nm e)
    with given show ?thesis
      by auto
  next
    case (dash doc tool pc v nm)
    with given show ?thesis
      by (auto simp: contains_char)
  next
    case (is_dir_raised doc tool pc v nm e)
    with given is_dir_error[OF is_dir_raised(9)] show ?thesis
      by (auto simp: contains_char)
  next
    case (dirs_not_list doc tool pc v nm b)
    with given show ?thesis
      by (auto simp: contains_char)
  next
    case (name_not_string doc tool pc v nm b ds e)
    with given show ?thesis
      by auto
  next
    case (glob_raised doc tool pc v nm b ds n' e)
    with given glob_error[OF glob_raised(12)] show ?thesis
      by (auto simp: contains_char)
  next
    case (exists_raised doc tool pc v nm b ds n' g e)
    from filter_raising_error[OF exists_raised(13)] exists_error have "e = OSError_ENAMETOOLONG"
      by blast
    with exists_raised given show ?thesis
      by (auto simp: contains_char)
  next
    case (finished doc tool pc v nm b ds n' g kept)
    with given show ?thesis
      by (auto simp: contains_char)
  qed (use given in auto)
  then show ?thesis
    unfolding run0 by (simp only: fst_conv snd_conv)
qed

lemma demo_dash_run:
  "fst (set_paths DIG0 (demo_world ''p-k'') None None None) =
     Some (RuntimeError ''Replace dashes in name with underscores (p-k) in /w/pyproject.toml'')"
  by (simp add: eval_defs)

lemma demo_ensure:
  "ensure_dir (demo_world n) (Path ''/'' [''w'', ''docs'', ''templates'']) =
    (None, (demo_world n)\<lparr>files := ([''w'', ''docs'', ''templates''], Dir)
                                    # ([''w'', ''docs''], Dir) # files (demo_world n)\<rparr>)"
  by (simp add: eval_defs)

theorem set_paths_dash_in_name_witness:
  "fst (set_paths DIG0 (demo_world ''p-k'') None None None) =
     Some (RuntimeError ''Replace dashes in name with underscores (p-k) in /w/pyproject.toml'') \<and>
   fst (set_paths DIG0 (demo_world ''pk'') None None None) = None \<and>
   tmp_examples_dir (fst (snd (set_paths DIG0 (demo_world ''pk'') None None None)))
     = Some (Path ''/'' [''w'', ''pk'', ''0EX''])"
proof -
  have en: "ensure_dir (demo_world n) (truediv (Path ''/'' [''w'', ''docs'']) ''templates'') =
    (None, (demo_world n)\<lparr>files := ([''w'', ''docs'', ''templates''], Dir)
                                    # ([''w'', ''docs''], Dir) # files (demo_world n)\<rparr>)" for n
    using demo_ensure[of n] by (simp add: truediv_def parse_parts_def splitroot_def)
  have ld: "toml_load ((demo_world n)\<lparr>files := ([''w'', ''docs'', ''templates''], Dir)
                                    # ([''w'', ''docs''], Dir) # files (demo_world n)\<rparr>)
              (truediv (Path ''/'' [''w'']) ''pyproject.toml'') = Inr (demo_manifest n)" for n
    by (simp add: eval_defs)
  have tb: "map_of (demo_manifest n) ''tool'' =
      Some (TTable (''{'poetry': {'name': '' @ quoted n @ '', 'version': '1.0'}}'')
                   [(''poetry'', TTable (''{'name': '' @ quoted n @ '', 'version': '1.0'}'')
                                   [(''name'', TStr n), (''version'', TStr ''1.0'')])])"
    "map_of [(''poetry'', TTable (''{'name': '' @ quoted n @ '', 'version': '1.0'}'')
                                   [(''name'', TStr n), (''version'', TStr ''1.0'')])] ''poetry'' =
      Some (TTable (''{'name': '' @ quoted n @ '', 'version': '1.0'}'')
              [(''name'', TStr n), (''version'', TStr ''1.0'')])"
    "map_of [(''name'', TStr n), (''version'', TStr ''1.0'')] ''version'' = Some (TStr ''1.0'')"
    "map_of [(''name'', TStr n), (''version'', TStr ''1.0'')] ''name'' = Some (TStr n)" for n
    by (simp_all add: demo_manifest_def)
  note inst = set_paths_dash_in_name[where s = DIG0 and a_pkg = None, OF demo_root demo_docs en ld tb]
  have dashed: "fst (set_paths DIG0 (demo_world ''p-k'') None None None) =
        Some (RuntimeError (''Replace dashes in name with underscores ('' @ ''p-k'' @ '') in ''
                              @ str (truediv (Path ''/'' [''w'']) ''pyproject.toml'')))"
    using inst[of "''p-k''"] by simp
  have plain: "tmp_examples_dir (fst (snd (set_paths DIG0 (demo_world ''pk'') None None None)))
              = Some (truediv (Path ''/'' [''w'']) (''pk'' @ ''/0EX''))"
    using inst[of "''pk''"] by simp
  from dashed plain demo_run_ok[of None] show ?thesis
    by (simp add: truediv_def parse_parts_def splitroot_def str_def)
qed

theorem set_paths_dash_in_name_counterexample:
  "is_file no_version_world (Path ''/'' [''w'', ''pyproject.toml'']) = Inr True \<and>
   fst (set_paths DIG0 no_version_world None None None) = Some (KeyError ''version'')"
  by (simp add: eval_defs no_version_world_def)

text \<open>
  C3. On every call of \<^verbatim>\<open>set_paths\<close> that returns without raising, the resolved locations
  are functions of the root \<open>p\<close> alone when no \<^verbatim>\<open>doc_dir\<close> is passed (then \<open>d\<close> is
  \<^verbatim>\<open>p / 'docs'\<close>), and the doc-relative ones are computed from \<open>d\<close> when \<^verbatim>\<open>doc_dir\<close> is
  passed as \<open>d\<close>.
\<close>

theorem set_paths_locations:
  assumes "set_paths s w a_pkg a_src a_doc = (None, s', w')"
      and "p = (case a_src of None \<Rightarrow> Path_cwd w | Some q \<Rightarrow> q)"
      and "d = (case a_doc of None \<Rightarrow> truediv p ''docs'' | Some q \<Rightarrow> q)"
  shows "source_path s' = Some p \<and>
         test_path s' = Some (truediv p ''tests'') \<and>
         doc_dir s' = Some d \<and>
         template_dir s' = Some (truediv d ''templates'') \<and>
         coverage_path s' = Some (truediv d ''cov_html/index.html'') \<and>
         test_report_path s' = Some (truediv d ''test_report.html'') \<and>
         flake8_path s' = Some (truediv p ''.flake8'') \<and>
         toml_path s' = Some (truediv p ''pyproject.toml'')"
proof -
  from assms(1) have "set_paths s w a_pkg (Some p) (Some d) = (None, s', w')"
    by (simp add: set_paths_normal[OF assms(2,3)])
  then show ?thesis
    by (cases rule: set_paths_cases) simp_all
qed

theorem set_paths_locations_witness:
  "fst (set_paths DIG0 (demo_world ''pk'') None None None) = None \<and>
   source_path (fst (snd (set_paths DIG0 (demo_world ''pk'') None None None)))
     = Some (Path ''/'' [''w'']) \<and>
   coverage_path (fst (snd (set_paths DIG0 (demo_world ''pk'') None None None)))
     = Some (Path ''/'' [''w'', ''docs'', ''cov_html'', ''index.html'']) \<and>
   coverage_path (fst (snd (set_paths DIG0 (demo_world ''pk'') None None
                               (Some (Path ''/'' [''out''])))))
     = Some (Path ''/'' [''out'', ''cov_html'', ''index.html''])"
proof -
  obtain s1 w1 where r1: "set_paths DIG0 (demo_world ''pk'') None None None = (None, s1, w1)"
    using demo_run_ok[of None] by (cases "set_paths DIG0 (demo_world ''pk'') None None None") auto
  have "fst (set_paths DIG0 (demo_world ''pk'') None None (Some (Path ''/'' [''out'']))) = None"
    by (simp add: eval_defs)
  then obtain s2 w2 where
    r2: "set_paths DIG0 (demo_world ''pk'') None None (Some (Path ''/'' [''out''])) = (None, s2, w2)"
    by (cases "set_paths DIG0 (demo_world ''pk'') None None (Some (Path ''/'' [''out'']))") auto
  have d2: "Path ''/'' [''out''] =
     (case Some (Path ''/'' [''out'']) of None \<Rightarrow> truediv (Path ''/'' [''w'']) ''docs'' | Some q \<Rightarrow> q)"
    by simp
  from set_paths_locations[OF r1 demo_root demo_docs] set_paths_locations[OF r2 demo_root d2]
    r1 r2
  show ?thesis
    by (simp add: truediv_def parse_parts_def splitroot_def)
qed

text \<open>
  C4. After every successful call of \<^verbatim>\<open>set_paths\<close> the manifest \<^verbatim>\<open>p / 'pyproject.toml'\<close>
  decodes to a document with a \<^verbatim>\<open>[tool.poetry]\<close> table, and \<^verbatim>\<open>pkg_name\<close> and \<^verbatim>\<open>pkg_version\<close>
  are that table's \<^verbatim>\<open>name\<close>, a string, and \<^verbatim>\<open>version\<close>, whatever \<^verbatim>\<open>pkg_name\<close> argument was
  passed. The document is the one in the file when the call returns, and the one that was in
  it before the call whenever the manifest was a file then.
\<close>

theorem set_paths_reads_manifest:
  assumes "set_paths s w a_pkg a_src a_doc = (None, s', w')"
      and "p = (case a_src of None \<Rightarrow> Path_cwd w | Some q \<Rightarrow> q)"
  shows "\<exists>doc r1 tool r2 poetry n v.
           toml_load w' (truediv p ''pyproject.toml'') = Inr doc \<and>
           (is_file w (truediv p ''pyproject.toml'') = Inr True \<longrightarrow>
              toml_load w (truediv p ''pyproject.toml'') = Inr doc) \<and>
           map_of doc ''tool'' = Some (TTable r1 tool) \<and>
           map_of tool ''poetry'' = Some (TTable r2 poetry) \<and>
           map_of poetry ''name'' = Some (TStr n) \<and>
           map_of poetry ''version'' = Some v \<and>
           pkg_name s' = Some (TStr n) \<and> pkg_version s' = Some v"
proof -
  define d where "d = (case a_doc of None \<Rightarrow> truediv p ''docs'' | Some q \<Rightarrow> q)"
  from assms(1) have "set_paths s w a_pkg (Some p) (Some d) = (None, s', w')"
    by (simp add: set_paths_normal[OF assms(2) d_def])
  then show ?thesis
  proof (cases rule: set_paths_cases)
    case (finished doc tool pc v nm b ds n g kept)
    note ext = ensure_dir_extends[OF finished(1)]
    from subscript_Inr[OF finished(5)] obtain r1 tkv where
      tool: "tool = TTable r1 tkv" "map_of tkv ''poetry'' = Some pc"
      by blast
    from subscript_Inr[OF finished(6)] obtain r2 pkv where
      pc: "pc = TTable r2 pkv" "map_of pkv ''version'' = Some v"
      by blast
    from finished(7) pc(1) finished(11) have nm: "map_of pkv ''name'' = Some (TStr n)"
      by (simp add: getitem_Inr)
    have "is_file w (truediv p ''pyproject.toml'') = Inr True \<longrightarrow>
              toml_load w (truediv p ''pyproject.toml'') = Inr doc"
      using is_file_extends(2)[OF ext, of "truediv p ''pyproject.toml''"] finished(3) by auto
    moreover have "map_of doc ''tool'' = Some (TTable r1 tkv)"
      using finished(4) tool(1) by (simp add: getitem_Inr)
    moreover have "pkg_name s' = Some (TStr n)" "pkg_version s' = Some v"
      using finished(15) finished(11) by simp_all
    ultimately show ?thesis
      using finished(3) tool(2) pc nm by blast
  qed simp_all
qed

theorem set_paths_reads_manifest_witness:
  "fst (set_paths DIG0 (demo_world ''pk'') (Some ''other'') None None) = None \<and>
   is_file (demo_world ''pk'') (Path ''/'' [''w'', ''pyproject.toml'']) = Inr True \<and>
   pkg_name (fst (snd (set_paths DIG0 (demo_world ''pk'') (Some ''other'') None None)))
     = Some (TStr ''pk'') \<and>
   pkg_version (fst (snd (set_paths DIG0 (demo_world ''pk'') (Some ''other'') None None)))
     = Some (TStr ''1.0'')"
proof -
  obtain s1 w1 where
    run: "set_paths DIG0 (demo_world ''pk'') (Some ''other'') None None = (None, s1, w1)"
    using demo_run_ok[of "Some ''other''"]
    by (cases "set_paths DIG0 (demo_world ''pk'') (Some ''other'') None None") auto
  have isf: "is_file (demo_world ''pk'') (truediv (Path ''/'' [''w'']) ''pyproject.toml'') = Inr True"
    and ld: "toml_load (demo_world ''pk'') (truediv (Path ''/'' [''w'']) ''pyproject.toml'')
              = Inr (demo_manifest ''pk'')"
    by (simp_all add: eval_defs)
  from set_paths_reads_manifest[OF run demo_root] isf obtain doc r1 tool r2 poetry n v where
    "toml_load (demo_world ''pk'') (truediv (Path ''/'' [''w'']) ''pyproject.toml'') = Inr doc"
    "map_of doc ''tool'' = Some (TTable r1 tool)" "map_of tool ''poetry'' = Some (TTable r2 poetry)"
    "map_of poetry ''name'' = Some (TStr n)" "map_of poetry ''version'' = Some v"
    "pkg_name s1 = Some (TStr n)" "pkg_version s1 = Some v"
    by blast
  with ld have "pkg_name s1 = Some (TStr ''pk'')" "pkg_version s1 = Some (TStr ''1.0'')"
    by (auto simp: demo_manifest_def)
  moreover from isf have
    "is_file (demo_world ''pk'') (Path ''/'' [''w'', ''pyproject.toml'']) = Inr True"
    by (simp add: truediv_def parse_parts_def splitroot_def)
  ultimately show ?thesis
    using run by simp
qed

lemma split_on_not_Nil: "split_on c xs \<noteq> []"
  by (induction xs) (auto split: list.splits)

lemma split_on_append_sep: "split_on c (xs @ c # ys) = split_on c xs @ split_on c ys"
proof (induction xs)
  case Nil
  show ?case by simp
next
  case (Cons x xs)
  obtain y ys' where s: "split_on c xs = y # ys'"
    using split_on_not_Nil[of c xs] by (cases "split_on c xs") auto
  with Cons show ?case
    by simp
qed

lemma splitroot_append:
  assumes "\<exists>c \<in> set n. c \<noteq> CHR ''/''"
  shows "splitroot (n @ x) = (fst (splitroot n), snd (splitroot n) @ x)"
proof -
  from assms have ne: "n \<noteq> []"
    by auto
  from assms have dw: "dropWhile (\<lambda>c. c = CHR ''/'') (n @ x) = dropWhile (\<lambda>c. c = CHR ''/'') n @ x"
    by (auto simp: dropWhile_append1)
  have le: "length (dropWhile (\<lambda>c. c = CHR ''/'') n) \<le> length n"
    by (rule length_dropWhile_le)
  show ?thesis
    using ne le by (auto simp: splitroot_def Let_def dw)
qed

lemma parse_parts_0EX:
  assumes "\<exists>c \<in> set n. c \<noteq> CHR ''/''"
  shows "parse_parts (n @ ''/0EX'') =
           Path (root (parse_parts n)) (parts (parse_parts n) @ [''0EX''])"
proof -
  have "split_on CHR ''/'' (r @ CHR ''/'' # ''0EX'') = split_on CHR ''/'' r @ [''0EX'']" for r
    by (simp add: split_on_append_sep)
  then show ?thesis
    using splitroot_append[OF assms, of "''/0EX''"]
    by (simp add: parse_parts_def split: prod.splits)
qed

lemma parse_parts_plain_0EX: "parse_parts ''0EX'' = Path [] [''0EX'']"
  by (simp add: parse_parts_def splitroot_def)

lemma truediv_0EX:
  assumes "\<exists>c \<in> set n. c \<noteq> CHR ''/''"
  shows "truediv p (n @ ''/0EX'') = truediv (truediv p n) ''0EX''"
  by (simp add: truediv_def Let_def parse_parts_0EX[OF assms] parse_parts_plain_0EX)

text \<open>
  C10, with the join as the program writes it. After every successful call of \<^verbatim>\<open>set_paths\<close>
  on root \<open>p\<close>, \<^verbatim>\<open>src_examples_dir\<close> is \<^verbatim>\<open>p / 'tests/examples'\<close> if that is a directory when
  the call returns, and \<^verbatim>\<open>None\<close> otherwise; \<^verbatim>\<open>tmp_examples_dir\<close> is \<^verbatim>\<open>p / (pkg_name + '/0EX')\<close>,
  which is \<^verbatim>\<open>p / pkg_name / '0EX'\<close> whenever the name has a character other than \<^verbatim>\<open>'/'\<close>.
\<close>

theorem set_paths_examples_dirs:
  assumes "set_paths s w a_pkg a_src a_doc = (None, s', w')"
      and "p = (case a_src of None \<Rightarrow> Path_cwd w | Some q \<Rightarrow> q)"
  shows "src_examples_dir s' =
           (if is_dir w' (truediv p ''tests/examples'') = Inr True
            then Some (truediv p ''tests/examples'') else None) \<and>
         (\<exists>n. pkg_name s' = Some (TStr n) \<and>
              tmp_examples_dir s' = Some (truediv p (n @ ''/0EX'')) \<and>
              ((\<exists>c \<in> set n. c \<noteq> CHR ''/'') \<longrightarrow>
                 tmp_examples_dir s' = Some (truediv (truediv p n) ''0EX'')))"
proof -
  define d where "d = (case a_doc of None \<Rightarrow> truediv p ''docs'' | Some q \<Rightarrow> q)"
  from assms(1) have "set_paths s w a_pkg (Some p) (Some d) = (None, s', w')"
    by (simp add: set_paths_normal[OF assms(2) d_def])
  then show ?thesis
  proof (cases rule: set_paths_cases)
    case (finished doc tool pc v nm b ds n g kept)
    have "src_examples_dir s' =
           (if is_dir w' (truediv p ''tests/examples'') = Inr True
            then Some (truediv p ''tests/examples'') else None)"
      "pkg_name s' = Some (TStr n)" "tmp_examples_dir s' = Some (truediv p (n @ ''/0EX''))"
      unfolding finished(15) using finished(9,11) by simp_all
    then show ?thesis
      using truediv_0EX[of n p] by auto
  qed simp_all
qed

theorem set_paths_examples_dirs_counterexample:
  "fst (set_paths DIG0 (demo_world '''') None None None) = None \<and>
   source_path (fst (snd (set_paths DIG0 (demo_world '''') None None None)))
     = Some (Path ''/'' [''w'']) \<and>
   pkg_name (fst (snd (set_paths DIG0 (demo_world '''') None None None))) = Some (TStr '''') \<and>
   tmp_examples_dir (fst (snd (set_paths DIG0 (demo_world '''') None None None)))
     = Some (Path ''/'' [''0EX'']) \<and>
   truediv (truediv (Path ''/'' [''w'']) '''') ''0EX'' = Path ''/'' [''w'', ''0EX'']"
  by (simp add: eval_defs)

theorem set_paths_examples_dirs_witness:
  "fst (set_paths DIG0 (demo_world ''pk'') None None None) = None \<and>
   src_examples_dir (fst (snd (set_paths DIG0 (demo_world ''pk'') None None None)))
     = Some (Path ''/'' [''w'', ''tests'', ''examples'']) \<and>
   tmp_examples_dir (fst (snd (set_paths DIG0 (demo_world ''pk'') None None None)))
     = Some (Path ''/'' [''w'', ''pk'', ''0EX''])"
proof -
  obtain s1 w1 where run: "set_paths DIG0 (demo_world ''pk'') None None None = (None, s1, w1)"
    using demo_run_ok[of None] by (cases "set_paths DIG0 (demo_world ''pk'') None None None") auto
  have s1: "s1 = fst (snd (set_paths DIG0 (demo_world ''pk'') None None None))"
    and w1: "w1 = snd (snd (set_paths DIG0 (demo_world ''pk'') None None None))"
    using run by simp_all
  from set_paths_examples_dirs[OF run demo_root] obtain n where
    a: "src_examples_dir s1 =
           (if is_dir w1 (truediv (Path ''/'' [''w'']) ''tests/examples'') = Inr True
            then Some (truediv (Path ''/'' [''w'']) ''tests/examples'') else None)"
    and n: "pkg_name s1 = Some (TStr n)"
    and b: "(\<exists>c \<in> set n. c \<noteq> CHR ''/'') \<longrightarrow>
                 tmp_examples_dir s1 = Some (truediv (truediv (Path ''/'' [''w'']) n) ''0EX'')"
    by blast
  have "pkg_name s1 = Some (TStr ''pk'')"
    unfolding s1 by (simp add: eval_defs)
  with n have "n = ''pk''"
    by simp
  with b have "tmp_examples_dir s1 = Some (truediv (truediv (Path ''/'' [''w'']) ''pk'') ''0EX'')"
    by simp
  moreover have "is_dir w1 (truediv (Path ''/'' [''w'']) ''tests/examples'') = Inr True"
    unfolding w1 by (simp add: eval_defs)
  ultimately show ?thesis
    using a run by (simp add: truediv_def parse_parts_def splitroot_def)
qed

end
